theory Spec2Isabelle
  imports Complex_Main "HOL-Library.Sublist" "HOL-Library.Multiset"
begin

section \<open>JavaScript values used by the analysis pipeline\<close>

text \<open>
  Numbers are modelled as exact real numbers (\<open>real\<close>): the services only add, subtract,
  multiply, divide, compare, floor and round, and every division whose divisor can be zero
  is written out with the value IEEE arithmetic gives there.  The one exception is
  \<open>calculateRiskScore\<close>, whose result depends on the rounding of binary64 arithmetic: there
  every \<open>+\<close>, \<open>/\<close> and \<open>*\<close> is followed by the rounding \<open>toDouble\<close> defined below.  Counts
  (array lengths, map counters) are \<open>nat\<close>.  A timestamp string is represented by the instant it denotes, the
  milliseconds returned by \<open>new Date(s).getTime()\<close>, an \<open>int\<close>; a \<open>null\<close> timestamp is
  \<open>None\<close>.
\<close>

definition Math_round :: "real \<Rightarrow> int" where
  "Math_round x = \<lfloor>x + 1 / 2\<rfloor>"

definition Math_floor :: "real \<Rightarrow> int" where
  "Math_floor x = \<lfloor>x\<rfloor>"

definition Math_ceil :: "real \<Rightarrow> int" where
  "Math_ceil x = \<lceil>x\<rceil>"

subsection \<open>Numbers as IEEE 754 binary64 values\<close>

text \<open>
  A JavaScript number is a binary64 value, and each arithmetic operator returns the exact
  result rounded to the nearest binary64 value, ties to the one with an even significand.
  A finite binary64 value is a real number; \<open>toDouble x\<close> is the binary64 value nearest to the
  real \<open>x\<close>.  \<open>exponent x\<close> is the binary exponent of \<open>x\<close>, kept within the normal range
  \<open>-1022 .. 1023\<close> (below \<open>2 powi (-1022)\<close> the values are subnormal and equally spaced), and
  \<open>ulp x\<close> is the spacing of the binary64 values at \<open>x\<close>, given the 52 fraction bits.
  Overflow to \<open>Infinity\<close> is not represented: results of magnitude \<open>2 powi 1024\<close> and more are
  outside this model.
\<close>

text \<open>Rounding to the nearest integer, ties to the even one.\<close>

definition roundHalfEven :: "real \<Rightarrow> int" where
  "roundHalfEven z =
     (let f = \<lfloor>z\<rfloor>; r = z - of_int f
      in if r < 1 / 2 then f else if r > 1 / 2 then f + 1 else if even f then f else f + 1)"

text \<open>
  The exponent \<open>e\<close> with \<open>2 powi e \<le> x < 2 powi (e + 1)\<close>, found by halving (from 1 upwards, at
  most 1023 times) or doubling (below 1, at most 1022 times).
\<close>

fun expUp :: "nat \<Rightarrow> real \<Rightarrow> int" where
  "expUp 0 x = 0"
| "expUp (Suc k) x = (if 2 \<le> x then expUp k (x / 2) + 1 else 0)"

fun expDown :: "nat \<Rightarrow> real \<Rightarrow> int" where
  "expDown 0 x = 0"
| "expDown (Suc k) x = (if x < 1 then expDown k (x * 2) - 1 else 0)"

definition exponent :: "real \<Rightarrow> int" where
  "exponent x = (if 1 \<le> \<bar>x\<bar> then expUp 1023 \<bar>x\<bar> else expDown 1022 \<bar>x\<bar>)"

definition ulp :: "real \<Rightarrow> real" where
  "ulp x = 2 powi (exponent x - 52)"

definition toDouble :: "real \<Rightarrow> real" where
  "toDouble x = of_int (roundHalfEven (x / ulp x)) * ulp x"

text \<open>The operators \<open>+\<close>, \<open>/\<close> and \<open>*\<close> on binary64 values.\<close>

definition fadd :: "real \<Rightarrow> real \<Rightarrow> real" where
  "fadd a b = toDouble (a + b)"

definition fdiv :: "real \<Rightarrow> real \<Rightarrow> real" where
  "fdiv a b = toDouble (a / b)"

definition fmul :: "real \<Rightarrow> real \<Rightarrow> real" where
  "fmul a b = toDouble (a * b)"

text \<open>Milliseconds to hours: \<open>ms / (1000 * 60 * 60)\<close>.\<close>

definition hoursOfMs :: "int \<Rightarrow> real" where
  "hoursOfMs ms = of_int ms / (1000 * 60 * 60)"

text \<open>\<open>String.prototype.toLowerCase\<close> on the ASCII letters; other characters are kept.\<close>

definition toLowerChar :: "char \<Rightarrow> char" where
  "toLowerChar c =
     (case map_of (zip ''ABCDEFGHIJKLMNOPQRSTUVWXYZ'' ''abcdefghijklmnopqrstuvwxyz'') c of
        Some d \<Rightarrow> d
      | None \<Rightarrow> c)"

definition toLowerCase :: "string \<Rightarrow> string" where
  "toLowerCase s = map toLowerChar s"

text \<open>\<open>String.prototype.includes\<close>: the argument occurs as a contiguous substring.\<close>

fun stringIncludes :: "string \<Rightarrow> string \<Rightarrow> bool" where
  "stringIncludes [] sub = (sub = [])"
| "stringIncludes (c # cs) sub = (prefix sub (c # cs) \<or> stringIncludes cs sub)"

text \<open>
  A JavaScript \<open>Map\<close> keeps its keys in insertion order: an association list in which
  \<open>set\<close> overwrites an existing key in place and appends a new one.
\<close>

fun mapSet :: "'k \<Rightarrow> 'v \<Rightarrow> ('k \<times> 'v) list \<Rightarrow> ('k \<times> 'v) list" where
  "mapSet k v [] = [(k, v)]"
| "mapSet k v ((k', v') # m) = (if k' = k then (k, v) # m else (k', v') # mapSet k v m)"

definition mapGet :: "('k \<times> 'v) list \<Rightarrow> 'k \<Rightarrow> 'v option" where
  "mapGet m k = map_of m k"

text \<open>\<open>(m.get(k) || 0) + 1\<close> stored back under \<open>k\<close>.\<close>

definition mapIncrement :: "'k \<Rightarrow> ('k \<times> nat) list \<Rightarrow> ('k \<times> nat) list" where
  "mapIncrement k m = mapSet k ((case mapGet m k of None \<Rightarrow> 0 | Some c \<Rightarrow> c) + 1) m"

text \<open>\<open>Math.max(...xs)\<close>; every call site guards it with \<open>xs.length > 0\<close>.\<close>

fun Math_max :: "nat list \<Rightarrow> nat" where
  "Math_max [] = 0"
| "Math_max (x # xs) = foldl max x xs"

text \<open>
  \<open>Array.prototype.sort(cmp)\<close> is a stable sort; for a comparator that is a total preorder
  it is insertion of each element before the first one it does not follow.
\<close>

fun insertBy :: "('a \<Rightarrow> 'a \<Rightarrow> real) \<Rightarrow> 'a \<Rightarrow> 'a list \<Rightarrow> 'a list" where
  "insertBy cmp x [] = [x]"
| "insertBy cmp x (y # ys) = (if cmp x y \<le> 0 then x # y # ys else y # insertBy cmp x ys)"

definition sortBy :: "('a \<Rightarrow> 'a \<Rightarrow> real) \<Rightarrow> 'a list \<Rightarrow> 'a list" where
  "sortBy cmp xs = foldr (insertBy cmp) xs []"

text \<open>
  Number formatting (\<open>toFixed\<close> and the conversion of a number inside a template string)
  only produces display text; it is a parameter of the functions that build such text.
\<close>

record fmt =
  toFixed :: "real \<Rightarrow> nat \<Rightarrow> string"
  numToString :: "real \<Rightarrow> string"

definition natToString :: "fmt \<Rightarrow> nat \<Rightarrow> string" where
  "natToString f n = numToString f (of_nat n)"

fun join :: "string \<Rightarrow> string list \<Rightarrow> string" where
  "join sep [] = []"
| "join sep [x] = x"
| "join sep (x # y # ys) = x @ sep @ join sep (y # ys)"

section \<open>Data model (types.ts)\<close>

datatype SprintState = active | closed | future

record SprintData =
  sprintId :: string
  sprintName :: string
  sprintState :: SprintState
  startDate :: int
  endDate :: int
  goal :: "string option"

record StatusTransition =
  fromStatus :: string
  toStatus :: string
  timestamp :: int

record IssueData =
  issueId :: string
  key :: string
  summary :: string
  assignee :: "string option"
  storyPoints :: "real option"
  status :: string
  statusTransitions :: "StatusTransition list"
  linkedPRs :: "string list"

record ReviewerData =
  username :: string
  approvedAt :: "int option"
  commentCount :: nat

datatype PRState = OPEN | MERGED | DECLINED

record PullRequestData =
  prId :: string
  prTitle :: string
  author :: string
  createdAt :: int
  firstReviewAt :: "int option"
  mergedAt :: "int option"
  prState :: PRState
  reviewers :: "ReviewerData list"
  revisionCount :: nat
  linkedIssues :: "string list"

record SprintMetrics =
  cycleTime :: real
  leadTime :: real
  throughput :: nat
  velocity :: real
  wipCount :: nat
  carryOverCount :: nat
  completionRate :: real

record PRMetrics =
  averageLatency :: real
  averageTimeToFirstReview :: real
  averageReviewCycles :: real
  averageRevisions :: real

record HistoricalMetrics =
  histSprintId :: string
  histSprintName :: string
  completedAt :: int
  histMetrics :: SprintMetrics
  histPrMetrics :: PRMetrics

datatype RiskLevel = Low | Medium | High

datatype RiskCategory = PR_DELAYS | HIGH_WIP | COMPLEXITY | CARRYOVER | BOTTLENECK

record RiskFactor =
  category :: RiskCategory
  severity :: real
  description :: string

record RiskAssessment =
  level :: RiskLevel
  score :: int
  factors :: "RiskFactor list"
  justification :: string

section \<open>RiskAssessor.ts\<close>

definition LOW_RISK_THRESHOLD :: int where
  "LOW_RISK_THRESHOLD = 33"

definition MEDIUM_RISK_THRESHOLD :: int where
  "MEDIUM_RISK_THRESHOLD = 66"

definition HIGH_WIP_THRESHOLD :: nat where
  "HIGH_WIP_THRESHOLD = 5"

definition LOW_COMPLETION_RATE_THRESHOLD :: real where
  "LOW_COMPLETION_RATE_THRESHOLD = 70"

definition REVIEWER_OVERLOAD_THRESHOLD :: nat where
  "REVIEWER_OVERLOAD_THRESHOLD = 8"

definition PR_DELAY_MULTIPLIER :: real where
  "PR_DELAY_MULTIPLIER = 13 / 10"

definition calculateRiskScore :: "RiskFactor list \<Rightarrow> int" where
  "calculateRiskScore fs =
     (if length fs = 0 then 0
      else
        let totalSeverity = foldl (\<lambda>sum factor. fadd sum (severity factor)) 0 fs;
            averageSeverity = fdiv totalSeverity (of_nat (length fs));
            score = fmul (fdiv averageSeverity 10) 100
        in min 100 (Math_round score))"

definition classifyRiskLevel :: "int \<Rightarrow> RiskLevel" where
  "classifyRiskLevel s =
     (if s \<le> LOW_RISK_THRESHOLD then Low
      else if s \<le> MEDIUM_RISK_THRESHOLD then Medium
      else High)"

text \<open>The mean severity the score is specified over.\<close>

definition meanSeverity :: "RiskFactor list \<Rightarrow> real" where
  "meanSeverity fs = sum_list (map severity fs) / of_nat (length fs)"

text \<open>
  Every detector computes its severity as \<open>Math.min(10, Math.floor(...) + c)\<close>, a whole
  number; \<open>integerSeverities\<close> holds of the lists whose severities are whole numbers in the
  documented range from 0 to 10.
  \<open>halfway x\<close>: \<open>x\<close> lies exactly in the middle between two consecutive integers.
\<close>

definition integerSeverities :: "RiskFactor list \<Rightarrow> bool" where
  "integerSeverities fs = list_all (\<lambda>f. severity f \<in> set (map of_int [0..10])) fs"

definition halfway :: "real \<Rightarrow> bool" where
  "halfway x = (x - of_int \<lfloor>x\<rfloor> = 1 / 2)"

section \<open>MetricsCalculator.ts\<close>

datatype BottleneckType = STATUS | REVIEWER' | DEPENDENCY

text \<open>
  \<open>severity\<close> and \<open>description\<close> also name fields of \<open>RiskFactor\<close>; the fields of
  \<open>BottleneckInfo\<close> carry the prefix \<open>bottleneck\<close>.
\<close>

record BottleneckInfo =
  location :: string
  bottleneckType :: BottleneckType
  affectedIssues :: "string list"
  bottleneckSeverity :: real
  bottleneckDescription :: string

definition ACTIVE_STATUSES :: "string list" where
  "ACTIVE_STATUSES =
     [''in progress'', ''in development'', ''in review'', ''code review'', ''testing'', ''qa'',
      ''ready for review'']"

definition COMPLETED_STATUSES :: "string list" where
  "COMPLETED_STATUSES = [''done'', ''closed'', ''resolved'', ''completed'']"

definition isActiveStatus :: "string \<Rightarrow> bool" where
  "isActiveStatus st =
     (let normalized = toLowerCase st
      in list_ex (\<lambda>activeStatus. stringIncludes normalized activeStatus) ACTIVE_STATUSES)"

definition isCompletedStatus :: "string \<Rightarrow> bool" where
  "isCompletedStatus st =
     (let normalized = toLowerCase st
      in list_ex (\<lambda>completedStatus. stringIncludes normalized completedStatus) COMPLETED_STATUSES)"

definition calculatePRLatency :: "PullRequestData \<Rightarrow> real" where
  "calculatePRLatency pr =
     (case mergedAt pr of
        None \<Rightarrow> 0
      | Some mergedTime \<Rightarrow> hoursOfMs (mergedTime - createdAt pr))"

definition calculateTimeToFirstReview :: "PullRequestData \<Rightarrow> real" where
  "calculateTimeToFirstReview pr =
     (case firstReviewAt pr of
        None \<Rightarrow> 0
      | Some firstReviewTime \<Rightarrow> hoursOfMs (firstReviewTime - createdAt pr))"

definition calculatePRMetrics :: "PullRequestData list \<Rightarrow> PRMetrics" where
  "calculatePRMetrics prs =
     (if length prs = 0 then
        \<lparr>averageLatency = 0, averageTimeToFirstReview = 0, averageReviewCycles = 0,
         averageRevisions = 0\<rparr>
      else
        let mergedPRs = filter (\<lambda>pr. prState pr = MERGED \<and> mergedAt pr \<noteq> None) prs;
            avgLatency =
              (if length mergedPRs > 0
               then foldl (\<lambda>sum pr. sum + calculatePRLatency pr) 0 mergedPRs
                      / of_nat (length mergedPRs)
               else 0);
            prsWithReview = filter (\<lambda>pr. firstReviewAt pr \<noteq> None) prs;
            avgTimeToFirstReview =
              (if length prsWithReview > 0
               then foldl (\<lambda>sum pr. sum + calculateTimeToFirstReview pr) 0 prsWithReview
                      / of_nat (length prsWithReview)
               else 0);
            avgReviewCycles =
              foldl (\<lambda>sum pr. sum + of_nat (length (reviewers pr))) 0 prs / of_nat (length prs);
            avgRevisions =
              foldl (\<lambda>sum pr. sum + of_nat (revisionCount pr)) 0 prs / of_nat (length prs)
        in \<lparr>averageLatency = avgLatency, averageTimeToFirstReview = avgTimeToFirstReview,
            averageReviewCycles = avgReviewCycles, averageRevisions = avgRevisions\<rparr>)"

text \<open>
  \<open>calculateCycleTime\<close> calls \<open>transitions.reverse()\<close>, which reverses the caller's array in
  place and returns it: the function returns the hours together with the array as it is
  left to the caller.
\<close>

definition calculateCycleTime :: "StatusTransition list \<Rightarrow> real \<times> StatusTransition list" where
  "calculateCycleTime transitions =
     (let startTransition = find (\<lambda>t. isActiveStatus (toStatus t)) transitions;
          reversed = rev transitions;
          endTransition = find (\<lambda>t. isCompletedStatus (toStatus t)) reversed
      in (case startTransition of
            None \<Rightarrow> 0
          | Some st \<Rightarrow>
              (case endTransition of
                 None \<Rightarrow> 0
               | Some en \<Rightarrow> hoursOfMs (timestamp en - timestamp st)),
          reversed))"

text \<open>
  \<open>calculateAverageCycleTime\<close> maps \<open>calculateCycleTime\<close> over the issues' own transition
  arrays, so it hands the issues back with those arrays reversed.
\<close>

definition calculateAverageCycleTime :: "IssueData list \<Rightarrow> real \<times> IssueData list" where
  "calculateAverageCycleTime issues =
     (let results = map (\<lambda>issue. calculateCycleTime (statusTransitions issue)) issues;
          issues' = map (\<lambda>(issue, r). issue\<lparr>statusTransitions := snd r\<rparr>) (zip issues results);
          cycleTimes = map fst results;
          validCycleTimes = filter (\<lambda>time. time > 0) cycleTimes
      in (if length issues = 0 then 0
          else if length validCycleTimes = 0 then 0
          else foldl (\<lambda>sum time. sum + time) 0 validCycleTimes / of_nat (length validCycleTimes),
          issues'))"

record DwellData =
  totalTime :: real
  count :: nat
  issues :: "string list"

definition addDwell ::
  "string \<Rightarrow> real \<Rightarrow> string \<Rightarrow> (string \<times> DwellData) list \<Rightarrow> (string \<times> DwellData) list" where
  "addDwell st dwellTime issueKey dwellTimes =
     (let dwellTimes' =
            (if mapGet dwellTimes st = None
             then mapSet st \<lparr>totalTime = 0, count = 0, issues = []\<rparr> dwellTimes
             else dwellTimes);
          d = (case mapGet dwellTimes' st of
                 None \<Rightarrow> \<lparr>totalTime = 0, count = 0, issues = []\<rparr>
               | Some d \<Rightarrow> d)
      in mapSet st
           \<lparr>totalTime = totalTime d + dwellTime, count = count d + 1,
            issues = (if issueKey \<in> set (issues d) then issues d else issues d @ [issueKey])\<rparr>
           dwellTimes')"

text \<open>The loop \<open>for (let i = 0; i < transitions.length - 1; i++)\<close> over adjacent transitions.\<close>

fun dwellLoop ::
  "string \<Rightarrow> StatusTransition list \<Rightarrow> (string \<times> DwellData) list \<Rightarrow> (string \<times> DwellData) list" where
  "dwellLoop issueKey (currentTransition # nextTransition # rest) dwellTimes =
     dwellLoop issueKey (nextTransition # rest)
       (addDwell (toStatus currentTransition)
          (hoursOfMs (timestamp nextTransition - timestamp currentTransition)) issueKey dwellTimes)"
| "dwellLoop issueKey [t] dwellTimes = dwellTimes"
| "dwellLoop issueKey [] dwellTimes = dwellTimes"

definition calculateStatusDwellTimes :: "IssueData list \<Rightarrow> (string \<times> DwellData) list" where
  "calculateStatusDwellTimes iss =
     foldl (\<lambda>dwellTimes issue. dwellLoop (key issue) (statusTransitions issue) dwellTimes) [] iss"

definition calculateAverageDwellTime :: "(string \<times> DwellData) list \<Rightarrow> real" where
  "calculateAverageDwellTime dwellTimes =
     (let total = foldl (\<lambda>acc d. acc + totalTime d) 0 (map snd dwellTimes);
          totalCount = foldl (\<lambda>acc d. acc + count d) 0 (map snd dwellTimes)
      in if totalCount > 0 then total / of_nat totalCount else 0)"

text \<open>
  The test of one entry of the dwell-time map.  \<open>avgTime / avgDwellTime\<close> is reached only
  with \<open>avgTime > 1\<close>, so a zero divisor gives \<open>Infinity\<close>, whose floor capped at 10 is 10 and
  which \<open>toFixed\<close> prints as \<open>Infinity\<close>.
\<close>

definition bottleneckOf :: "fmt \<Rightarrow> real \<Rightarrow> string \<times> DwellData \<Rightarrow> BottleneckInfo option" where
  "bottleneckOf f avgDwellTime e =
     (let st = fst e; d = snd e
      in if isCompletedStatus st then None
         else
           let avgTime = totalTime d / of_nat (count d)
           in if avgTime > 1 \<and> avgTime > avgDwellTime * (3 / 2) \<and> count d \<ge> 2 then
                Some \<lparr>location = st, bottleneckType = STATUS, affectedIssues = issues d,
                      bottleneckSeverity =
                        (if avgDwellTime = 0 then 10
                         else of_int (min 10 (Math_floor ((avgTime / avgDwellTime) * 3)))),
                      bottleneckDescription =
                        ''Issues spend an average of '' @ toFixed f avgTime 1 @ '' hours in \"''
                        @ st @ ''\" status, which is ''
                        @ (if avgDwellTime = 0 then ''Infinity''
                           else toFixed f ((avgTime / avgDwellTime - 1) * 100) 0)
                        @ ''% above average.''\<rparr>
              else None)"

definition identifyBottlenecks :: "fmt \<Rightarrow> IssueData list \<Rightarrow> BottleneckInfo list" where
  "identifyBottlenecks f iss =
     (let statusDwellTimes = calculateStatusDwellTimes iss;
          avgDwellTime = calculateAverageDwellTime statusDwellTimes;
          bottlenecks = List.map_filter (bottleneckOf f avgDwellTime) statusDwellTimes
      in sortBy (\<lambda>a b. bottleneckSeverity b - bottleneckSeverity a) bottlenecks)"

section \<open>RiskAssessor.ts: the five detectors\<close>

text \<open>
  \<open>detectPRDelays\<close>: with a historical baseline of 0 the percentage increase is
  \<open>Infinity\<close> (the branch is entered only when the current latency is above 0), so the
  capped severity is 10.
\<close>

definition detectPRDelays :: "fmt \<Rightarrow> PRMetrics \<Rightarrow> HistoricalMetrics option \<Rightarrow> RiskFactor option" where
  "detectPRDelays f prMetrics historicalData =
     (case historicalData of
        None \<Rightarrow>
          (if averageLatency prMetrics > 48 \<or> averageTimeToFirstReview prMetrics > 24 then
             Some \<lparr>category = PR_DELAYS,
                   severity = of_int (min 10 (Math_floor (averageLatency prMetrics / 10))),
                   description =
                     ''PR latency is '' @ toFixed f (averageLatency prMetrics) 1
                     @ '' hours with '' @ toFixed f (averageTimeToFirstReview prMetrics) 1
                     @ '' hours to first review.''\<rparr>
           else None)
      | Some h \<Rightarrow>
          (let historicalLatency = averageLatency (histPrMetrics h);
               threshold = historicalLatency * PR_DELAY_MULTIPLIER
           in if averageLatency prMetrics > threshold then
                (let percentageIncrease = (averageLatency prMetrics / historicalLatency - 1) * 100
                 in Some \<lparr>category = PR_DELAYS,
                          severity =
                            (if historicalLatency = 0 then 10
                             else of_int (min 10 (Math_floor (percentageIncrease / 10)))),
                          description =
                            ''PR latency is ''
                            @ (if historicalLatency = 0 then ''Infinity''
                               else toFixed f percentageIncrease 0)
                            @ ''% above historical baseline (''
                            @ toFixed f (averageLatency prMetrics) 1 @ '' vs ''
                            @ toFixed f historicalLatency 1 @ '' hours).''\<rparr>)
              else None))"

text \<open>
  \<open>if (issue.assignee)\<close>: \<open>null\<close> and the empty string are both falsy.
\<close>

definition truthyString :: "string option \<Rightarrow> bool" where
  "truthyString s = (case s of None \<Rightarrow> False | Some a \<Rightarrow> a \<noteq> [])"

definition isProgressOrReview :: "IssueData \<Rightarrow> bool" where
  "isProgressOrReview issue =
     (stringIncludes (toLowerCase (status issue)) ''progress''
      \<or> stringIncludes (toLowerCase (status issue)) ''review'')"

definition countByAssignee :: "IssueData list \<Rightarrow> (string \<times> nat) list" where
  "countByAssignee activeIssues =
     foldl (\<lambda>wipByDeveloper issue.
              case assignee issue of
                None \<Rightarrow> wipByDeveloper
              | Some a \<Rightarrow> (if a = [] then wipByDeveloper else mapIncrement a wipByDeveloper))
       [] activeIssues"

definition detectHighWIP :: "fmt \<Rightarrow> SprintMetrics \<Rightarrow> IssueData list option \<Rightarrow> RiskFactor option" where
  "detectHighWIP f sprintMetrics issuesOpt =
     (case issuesOpt of
        Some iss \<Rightarrow>
          (let activeIssues = filter isProgressOrReview iss;
               wipByDeveloper = countByAssignee activeIssues;
               overloadedDevs = filter (\<lambda>e. snd e \<ge> HIGH_WIP_THRESHOLD) wipByDeveloper
           in if length overloadedDevs > 0 then
                (let maxWIP = Math_max (map snd overloadedDevs);
                     sev = min 10 (Math_floor ((of_nat maxWIP - of_nat HIGH_WIP_THRESHOLD) * 2) + 5)
                 in Some \<lparr>category = HIGH_WIP, severity = of_int sev,
                          description =
                            natToString f (length overloadedDevs) @ '' developer(s) have ''
                            @ natToString f HIGH_WIP_THRESHOLD @ ''+ active issues (max: ''
                            @ natToString f maxWIP @ '').''\<rparr>)
              else None)
      | None \<Rightarrow>
          (if wipCount sprintMetrics \<ge> HIGH_WIP_THRESHOLD * 2 then
             Some \<lparr>category = HIGH_WIP,
                   severity = of_int (min 10 (Math_floor (of_nat (wipCount sprintMetrics) / 3))),
                   description =
                     ''High WIP with '' @ natToString f (wipCount sprintMetrics)
                     @ '' active issues.''\<rparr>
           else None))"

definition detectCarryOverRisk :: "fmt \<Rightarrow> SprintMetrics \<Rightarrow> RiskFactor option" where
  "detectCarryOverRisk f sprintMetrics =
     (if completionRate sprintMetrics < LOW_COMPLETION_RATE_THRESHOLD then
        (let deficit = LOW_COMPLETION_RATE_THRESHOLD - completionRate sprintMetrics
         in Some \<lparr>category = CARRYOVER,
                  severity = of_int (min 10 (Math_floor (deficit / 5) + 3)),
                  description =
                    ''Completion rate is '' @ toFixed f (completionRate sprintMetrics) 0
                    @ ''%, indicating '' @ natToString f (carryOverCount sprintMetrics)
                    @ '' likely carry-over tasks.''\<rparr>)
      else None)"

text \<open>The pending reviews per reviewer over the open pull requests.\<close>

definition calculateReviewerWorkload :: "PullRequestData list \<Rightarrow> (string \<times> nat) list" where
  "calculateReviewerWorkload prs =
     foldl (\<lambda>workload pr.
              if prState pr = OPEN
              then foldl (\<lambda>w reviewer. mapIncrement (username reviewer) w) workload (reviewers pr)
              else workload)
       [] prs"

definition detectReviewerBottlenecks :: "fmt \<Rightarrow> PullRequestData list option \<Rightarrow> RiskFactor option" where
  "detectReviewerBottlenecks f prsOpt =
     (case prsOpt of
        None \<Rightarrow> None
      | Some prs \<Rightarrow>
          (if length prs = 0 then None
           else
             let prsByReviewer = calculateReviewerWorkload prs;
                 overloadedReviewers =
                   filter (\<lambda>e. snd e \<ge> REVIEWER_OVERLOAD_THRESHOLD) prsByReviewer
             in if length overloadedReviewers > 0 then
                  (let maxPRs = Math_max (map snd overloadedReviewers);
                       sev = min 10
                               (Math_floor ((of_nat maxPRs - of_nat REVIEWER_OVERLOAD_THRESHOLD) / 2) + 6)
                   in Some \<lparr>category = BOTTLENECK, severity = of_int sev,
                            description =
                              natToString f (length overloadedReviewers) @ '' reviewer(s) have ''
                              @ natToString f REVIEWER_OVERLOAD_THRESHOLD @ ''+ pending PRs (max: ''
                              @ natToString f maxPRs @ '').''\<rparr>)
                else None))"

definition detectLowCompletionRate :: "fmt \<Rightarrow> SprintMetrics \<Rightarrow> RiskFactor option" where
  "detectLowCompletionRate f sprintMetrics =
     (if completionRate sprintMetrics < 50 \<and> velocity sprintMetrics > 0 then
        Some \<lparr>category = COMPLEXITY,
              severity = of_int (min 10 (Math_floor ((50 - completionRate sprintMetrics) / 5) + 5)),
              description =
                ''Very low completion rate ('' @ toFixed f (completionRate sprintMetrics) 0
                @ ''%) suggests task complexity issues.''\<rparr>
      else None)"

text \<open>\<open>if (x) factors.push(x)\<close> for a detector result \<open>x\<close>.\<close>

definition pushIfPresent :: "'a list \<Rightarrow> 'a option \<Rightarrow> 'a list" where
  "pushIfPresent xs x = (case x of None \<Rightarrow> xs | Some v \<Rightarrow> xs @ [v])"

definition identifyRiskFactors ::
  "fmt \<Rightarrow> SprintMetrics \<Rightarrow> PRMetrics \<Rightarrow> HistoricalMetrics option \<Rightarrow> IssueData list option
   \<Rightarrow> PullRequestData list option \<Rightarrow> RiskFactor list" where
  "identifyRiskFactors f sprintMetrics prMetrics historicalData issuesOpt prsOpt =
     (let factors0 = [];
          factors1 = pushIfPresent factors0 (detectPRDelays f prMetrics historicalData);
          factors2 = pushIfPresent factors1 (detectHighWIP f sprintMetrics issuesOpt);
          factors3 = pushIfPresent factors2 (detectCarryOverRisk f sprintMetrics);
          factors4 = pushIfPresent factors3 (detectReviewerBottlenecks f prsOpt);
          factors5 = pushIfPresent factors4 (detectLowCompletionRate f sprintMetrics)
      in factors5)"

section \<open>PredictionEngine.ts\<close>

record SpilloverPrediction =
  issueKey :: string
  probability :: real
  reasons :: "string list"

definition NOT_STARTED_STATUSES :: "string list" where
  "NOT_STARTED_STATUSES = [''to do'', ''backlog'', ''open'', ''new'']"

definition IN_PROGRESS_STATUSES :: "string list" where
  "IN_PROGRESS_STATUSES =
     [''in progress'', ''in development'', ''in review'', ''code review'', ''testing'', ''qa'',
      ''ready for review'']"

definition DEFAULT_HOURS_PER_STORY_POINT :: real where
  "DEFAULT_HOURS_PER_STORY_POINT = 8"

definition isNotStartedStatus :: "string \<Rightarrow> bool" where
  "isNotStartedStatus st =
     (let normalized = toLowerCase st
      in list_ex (\<lambda>s. stringIncludes normalized s) NOT_STARTED_STATUSES)"

definition isInProgressStatus :: "string \<Rightarrow> bool" where
  "isInProgressStatus st =
     (let normalized = toLowerCase st
      in list_ex (\<lambda>s. stringIncludes normalized s) IN_PROGRESS_STATUSES)"

text \<open>
  \<open>PredictionEngine\<close> and \<open>RecommendationGenerator\<close> each carry a private
  \<open>isCompletedStatus\<close> over the same four keywords as the one of \<open>MetricsCalculator\<close>;
  the one definition above stands for the three.
\<close>

definition calculateDaysRemaining :: "SprintData \<Rightarrow> int \<Rightarrow> real" where
  "calculateDaysRemaining sprint currentDate =
     (let diffTime = endDate sprint - currentDate
      in of_int diffTime / (1000 * 60 * 60 * 24))"

definition calculateHoursPerStoryPoint :: "SprintMetrics option \<Rightarrow> real" where
  "calculateHoursPerStoryPoint sprintMetrics =
     (case sprintMetrics of
        None \<Rightarrow> DEFAULT_HOURS_PER_STORY_POINT
      | Some m \<Rightarrow>
          (if velocity m = 0 then DEFAULT_HOURS_PER_STORY_POINT
           else if throughput m > 0 \<and> velocity m > 0
           then cycleTime m / (velocity m / of_nat (throughput m))
           else DEFAULT_HOURS_PER_STORY_POINT))"

text \<open>
  \<open>calculateTimeInCurrentStatus\<close> reads the clock (\<open>Date.now()\<close>, the argument \<open>now\<close>) and,
  when the issue has transitions, reverses the issue's transition array in place; it
  returns the hours and the array as it leaves it.
\<close>

definition calculateTimeInCurrentStatus :: "int \<Rightarrow> IssueData \<Rightarrow> real \<times> StatusTransition list" where
  "calculateTimeInCurrentStatus now issue =
     (if length (statusTransitions issue) = 0 then (0, statusTransitions issue)
      else
        let currentStatus = status issue;
            reversed = rev (statusTransitions issue);
            lastTransition = find (\<lambda>t. toStatus t = currentStatus) reversed
        in (case lastTransition of
              None \<Rightarrow> 0
            | Some t \<Rightarrow> hoursOfMs (now - timestamp t),
            reversed))"

fun totalDwell :: "StatusTransition list \<Rightarrow> real" where
  "totalDwell (t # t' # rest) = hoursOfMs (timestamp t' - timestamp t) + totalDwell (t' # rest)"
| "totalDwell [t] = 0"
| "totalDwell [] = 0"

definition calculateAverageStatusDwellTime :: "StatusTransition list \<Rightarrow> real" where
  "calculateAverageStatusDwellTime transitions =
     (if length transitions < 2 then 0
      else totalDwell transitions / of_nat (length transitions - 1))"

text \<open>
  \<open>calculateCompletionProbability\<close> in two parts: \<open>completionFactors\<close> is the body up to
  and including factor 6, the probability not yet clamped; the function itself clamps it.
  \<open>issue.storyPoints || 3\<close> replaces \<open>null\<close> and 0 by 3;
  \<open>sprintMetrics?.cycleTime || ...\<close> replaces a missing or zero cycle time.  The dwell-time
  factor reads the transition array after \<open>calculateTimeInCurrentStatus\<close> may have reversed
  it.  The percentage in the in-progress reason divides by the average cycle time; with a
  zero divisor the branch has a positive dividend and the text is \<open>Infinity\<close>.
\<close>

definition completionFactors ::
  "fmt \<Rightarrow> int \<Rightarrow> IssueData \<Rightarrow> real \<Rightarrow> real \<Rightarrow> SprintMetrics option \<Rightarrow> real \<times> string list" where
  "completionFactors f now issue daysRemaining hoursPerStoryPoint sprintMetrics =
     (let points = (case storyPoints issue of None \<Rightarrow> 3 | Some sp \<Rightarrow> if sp = 0 then 3 else sp);
          estimatedHoursNeeded = points * hoursPerStoryPoint;
          hoursRemaining = daysRemaining * 8;
          (p1, r1) =
            (if estimatedHoursNeeded \<le> hoursRemaining * (1 / 2) then
               (1 / 2 + 3 / 10,
                [''Estimated '' @ toFixed f estimatedHoursNeeded 0 @ ''h needed vs ''
                 @ toFixed f hoursRemaining 0 @ ''h remaining''])
             else if estimatedHoursNeeded \<le> hoursRemaining then
               (1 / 2 + 1 / 10,
                [''Tight timeline: '' @ toFixed f estimatedHoursNeeded 0 @ ''h needed vs ''
                 @ toFixed f hoursRemaining 0 @ ''h remaining''])
             else
               (1 / 2 - 3 / 10,
                [''Insufficient time: '' @ toFixed f estimatedHoursNeeded 0 @ ''h needed vs ''
                 @ toFixed f hoursRemaining 0 @ ''h remaining'']));
          (p2, r2, transitions) =
            (if isNotStartedStatus (status issue) then
               (p1 - 2 / 10,
                r1 @ [''Issue not yet started (status: '' @ status issue @ '')''],
                statusTransitions issue)
             else if isInProgressStatus (status issue) then
               (let (timeInProgress, transitions') = calculateTimeInCurrentStatus now issue;
                    avgCycleTime =
                      (case sprintMetrics of
                         None \<Rightarrow> hoursPerStoryPoint * points
                       | Some m \<Rightarrow>
                           if cycleTime m = 0 then hoursPerStoryPoint * points else cycleTime m)
                in if timeInProgress > avgCycleTime * (7 / 10) then
                     (p1 + 2 / 10,
                      r1 @ [''Issue in progress for '' @ toFixed f timeInProgress 0 @ ''h (''
                            @ (if avgCycleTime = 0 then ''Infinity''
                               else toFixed f ((timeInProgress / avgCycleTime) * 100) 0)
                            @ ''% of avg cycle time)''],
                      transitions')
                   else
                     (p1 + 1 / 10,
                      r1 @ [''Issue recently started ('' @ toFixed f timeInProgress 0
                            @ ''h in progress)''],
                      transitions'))
             else (p1, r1, statusTransitions issue));
          statusDwellTime = calculateAverageStatusDwellTime transitions;
          (p3, r3) =
            (if statusDwellTime > hoursPerStoryPoint * 2 then
               (p2 - 15 / 100,
                r2 @ [''High status dwell time ('' @ toFixed f statusDwellTime 0
                      @ ''h average per status)''])
             else (p2, r2));
          (p4, r4) =
            (if points \<ge> 8 then
               (p3 - 1 / 10, r3 @ [''High complexity ('' @ numToString f points @ '' story points)''])
             else if points \<ge> 5 then
               (p3 - 5 / 100,
                r3 @ [''Medium-high complexity ('' @ numToString f points @ '' story points)''])
             else (p3, r3));
          (p5, r5) =
            (if \<not> truthyString (assignee issue) then (p4 - 15 / 100, r4 @ [''Issue is unassigned''])
             else (p4, r4));
          (p6, r6) =
            (if length (linkedPRs issue) > 0 then
               (p5 + 1 / 10,
                r5 @ [''Has '' @ natToString f (length (linkedPRs issue)) @ '' linked PR(s)''])
             else (p5, r5))
      in (p6, r6))"

definition calculateCompletionProbability ::
  "fmt \<Rightarrow> int \<Rightarrow> IssueData \<Rightarrow> real \<Rightarrow> real \<Rightarrow> SprintMetrics option \<Rightarrow> real \<times> string list" where
  "calculateCompletionProbability f now issue daysRemaining hoursPerStoryPoint sprintMetrics =
     (let (p, rs) = completionFactors f now issue daysRemaining hoursPerStoryPoint sprintMetrics
      in (max 0 (min 1 p), rs))"

text \<open>
  \<open>predictSpillover\<close>; \<open>currentDate\<close> is the date passed by the caller, \<open>now\<close> the clock read
  by \<open>calculateTimeInCurrentStatus\<close>.
\<close>

definition predictSpillover ::
  "fmt \<Rightarrow> int \<Rightarrow> IssueData list \<Rightarrow> SprintData \<Rightarrow> int \<Rightarrow> SprintMetrics option
   \<Rightarrow> SpilloverPrediction list" where
  "predictSpillover f now iss sprint currentDate sprintMetrics =
     (let activeIssues = filter (\<lambda>issue. \<not> isCompletedStatus (status issue)) iss;
          daysRemaining = calculateDaysRemaining sprint currentDate
      in if daysRemaining \<le> 0 then
           map (\<lambda>issue. \<lparr>issueKey = key issue, probability = 1,
                           reasons = [''Sprint has ended and issue is not completed'']\<rparr>)
             activeIssues
         else
           let hoursPerStoryPoint = calculateHoursPerStoryPoint sprintMetrics;
               predictions =
                 foldl (\<lambda>predictions issue.
                          let prediction =
                                calculateCompletionProbability f now issue daysRemaining
                                  hoursPerStoryPoint sprintMetrics
                          in if fst prediction < 7 / 10
                             then predictions
                                  @ [\<lparr>issueKey = key issue, probability = 1 - fst prediction,
                                      reasons = snd prediction\<rparr>]
                             else predictions)
                   [] activeIssues
           in sortBy (\<lambda>a b. probability b - probability a) predictions)"

section \<open>RecommendationGenerator.ts\<close>

datatype RecommendationCategory = SCOPE | REVIEWER | WIP | PROCESS | PLANNING

text \<open>
  The impact literals \<open>'High' | 'Medium' | 'Low'\<close> share their spelling with the risk levels;
  as constructors they carry the suffix \<open>Impact\<close>.  The \<open>category\<close> and \<open>description\<close> of a
  recommendation carry the prefix \<open>rec\<close>.
\<close>

datatype Impact = HighImpact | MediumImpact | LowImpact

record Recommendation =
  priority :: nat
  recCategory :: RecommendationCategory
  title :: string
  recDescription :: string
  impact :: Impact

definition HIGH_RISK_SCORE_THRESHOLD :: int where
  "HIGH_RISK_SCORE_THRESHOLD = 66"

definition MEDIUM_RISK_SCORE_THRESHOLD :: int where
  "MEDIUM_RISK_SCORE_THRESHOLD = 33"

text \<open>\<open>isTaskStalled\<close> reads the clock (\<open>Date.now()\<close>, the argument \<open>now\<close>).\<close>

definition isTaskStalled :: "int \<Rightarrow> IssueData \<Rightarrow> bool" where
  "isTaskStalled now issue =
     (if length (statusTransitions issue) = 0 then False
      else
        let lastTransition = last (statusTransitions issue);
            hoursSinceLastTransition = hoursOfMs (now - timestamp lastTransition)
        in hoursSinceLastTransition > 72)"

definition identifyRiskyTasks :: "int \<Rightarrow> IssueData list \<Rightarrow> IssueData list" where
  "identifyRiskyTasks now iss =
     (let incompleteIssues = filter (\<lambda>issue. \<not> isCompletedStatus (status issue)) iss
      in filter (\<lambda>issue.
                   let isBlocked = stringIncludes (toLowerCase (status issue)) ''blocked'';
                       isHighComplexity =
                         ((case storyPoints issue of None \<Rightarrow> 0 | Some sp \<Rightarrow> sp) \<ge> 8);
                       isStalled = isTaskStalled now issue
                   in isBlocked \<or> isHighComplexity \<or> isStalled)
           incompleteIssues)"

definition generateScopeRecommendations ::
  "fmt \<Rightarrow> int \<Rightarrow> RiskAssessment \<Rightarrow> SprintMetrics \<Rightarrow> IssueData list \<Rightarrow> Recommendation list" where
  "generateScopeRecommendations f now riskAssessment sprintMetrics iss =
     (if score riskAssessment \<ge> HIGH_RISK_SCORE_THRESHOLD then
        (let incompleteIssues = filter (\<lambda>issue. \<not> isCompletedStatus (status issue)) iss;
             currentPoints =
               foldl (\<lambda>sum issue. sum + (case storyPoints issue of None \<Rightarrow> 0 | Some sp \<Rightarrow> sp))
                 0 incompleteIssues;
             suggestedReduction = Math_ceil (currentPoints * (2 / 10));
             recommendations =
               [\<lparr>priority = 1, recCategory = SCOPE,
                 title = ''Reduce sprint scope to manage high risk'',
                 recDescription =
                   ''Consider reducing scope by '' @ numToString f (of_int suggestedReduction)
                   @ '' story points (20% of remaining work). Focus on completing high-priority tasks and postpone lower-priority items to reduce risk and improve completion rate.'',
                 impact = HighImpact\<rparr>];
             riskyTasks = identifyRiskyTasks now iss
         in if length riskyTasks > 0 then
              (let taskList = join '', '' (map key (take 3 riskyTasks))
               in recommendations
                  @ [\<lparr>priority = 2, recCategory = SCOPE,
                      title = ''Postpone blocked or risky tasks'',
                      recDescription =
                        ''Consider postponing tasks that are blocked or have high complexity: ''
                        @ taskList
                        @ ''. These tasks are at high risk of spillover and may impact team velocity.'',
                      impact = HighImpact\<rparr>])
            else recommendations)
      else if completionRate sprintMetrics < LOW_COMPLETION_RATE_THRESHOLD
              \<and> score riskAssessment \<ge> MEDIUM_RISK_SCORE_THRESHOLD then
        [\<lparr>priority = 3, recCategory = SCOPE,
          title = ''Adjust scope to improve completion rate'',
          recDescription =
            ''Current completion rate is '' @ toFixed f (completionRate sprintMetrics) 0
            @ ''%. Consider moving 1-2 lower-priority tasks to the backlog to ensure the team can complete committed work.'',
          impact = MediumImpact\<rparr>]
      else [])"

definition generateReviewerRecommendations ::
  "fmt \<Rightarrow> PullRequestData list \<Rightarrow> PRMetrics \<Rightarrow> Recommendation list" where
  "generateReviewerRecommendations f prs prMetrics =
     (let reviewerWorkload = calculateReviewerWorkload prs;
          overloadedReviewers =
            sortBy (\<lambda>a b. of_nat (snd b) - of_nat (snd a))
              (filter (\<lambda>e. snd e \<ge> REVIEWER_OVERLOAD_THRESHOLD) reviewerWorkload);
          recommendations =
            (case overloadedReviewers of
               [] \<Rightarrow> []
             | (topReviewer, prCount) # _ \<Rightarrow>
                 (let underutilizedReviewers = map fst (filter (\<lambda>e. snd e < 3) reviewerWorkload)
                  in if length underutilizedReviewers > 0 then
                       [\<lparr>priority = 1, recCategory = REVIEWER,
                         title = ''Redistribute PR reviews to balance workload'',
                         recDescription =
                           topReviewer @ '' has '' @ natToString f prCount
                           @ '' pending PRs. Redistribute reviews to ''
                           @ join '', '' (take 2 underutilizedReviewers)
                           @ '' to reduce bottlenecks and improve review turnaround time.'',
                         impact = HighImpact\<rparr>]
                     else
                       [\<lparr>priority = 2, recCategory = REVIEWER,
                         title = ''Address reviewer overload'',
                         recDescription =
                           natToString f (length overloadedReviewers) @ '' reviewer(s) have ''
                           @ natToString f REVIEWER_OVERLOAD_THRESHOLD
                           @ ''+ pending PRs. Consider adding more reviewers or prioritizing critical PRs to reduce review delays.'',
                         impact = HighImpact\<rparr>]))
      in if averageTimeToFirstReview prMetrics > 24 then
           recommendations
           @ [\<lparr>priority = 3, recCategory = REVIEWER,
               title = ''Improve review response time'',
               recDescription =
                 ''Average time to first review is ''
                 @ toFixed f (averageTimeToFirstReview prMetrics) 1
                 @ '' hours. Set a team goal of responding to PRs within 8-12 hours to maintain development momentum.'',
               impact = MediumImpact\<rparr>]
         else recommendations)"

definition calculateWIPByDeveloper :: "IssueData list \<Rightarrow> (string \<times> nat) list" where
  "calculateWIPByDeveloper iss = countByAssignee (filter isProgressOrReview iss)"

definition generateWIPRecommendations ::
  "fmt \<Rightarrow> SprintMetrics \<Rightarrow> IssueData list \<Rightarrow> BottleneckInfo list option \<Rightarrow> Recommendation list" where
  "generateWIPRecommendations f sprintMetrics iss bottlenecks =
     (let wipByDeveloper = calculateWIPByDeveloper iss;
          overloadedDevs = filter (\<lambda>e. snd e \<ge> HIGH_WIP_THRESHOLD) wipByDeveloper;
          recommendations =
            (case overloadedDevs of
               [] \<Rightarrow> []
             | (topDev, wip) # _ \<Rightarrow>
                 (let underutilizedDevs = filter (\<lambda>e. snd e < 2) wipByDeveloper
                  in [\<lparr>priority = 2, recCategory = WIP,
                       title = ''Implement WIP limits to improve flow'',
                       recDescription =
                         natToString f (length overloadedDevs) @ '' developer(s) have ''
                         @ natToString f HIGH_WIP_THRESHOLD @ ''+ active issues ('' @ topDev
                         @ '': '' @ natToString f wip
                         @ ''). Implement a WIP limit of 3-4 issues per developer to improve focus and completion rate.'',
                       impact = HighImpact\<rparr>]
                     @ (if length underutilizedDevs > 0 then
                          [\<lparr>priority = 3, recCategory = WIP,
                            title = ''Rebalance task assignments'',
                            recDescription =
                              ''Redistribute tasks from overloaded developers to team members with lower WIP. This will help prevent bottlenecks and improve overall team throughput.'',
                            impact = MediumImpact\<rparr>]
                        else [])))
      in (case bottlenecks of
            None \<Rightarrow> recommendations
          | Some [] \<Rightarrow> recommendations
          | Some (topBottleneck # _) \<Rightarrow>
              (if bottleneckType topBottleneck = STATUS then
                 recommendations
                 @ [\<lparr>priority = 2, recCategory = PROCESS,
                     title = ''Address bottleneck in \"'' @ location topBottleneck @ ''\" status'',
                     recDescription =
                       natToString f (length (affectedIssues topBottleneck))
                       @ '' issues are delayed in \"'' @ location topBottleneck @ ''\". ''
                       @ bottleneckDescription topBottleneck
                       @ '' Investigate and remove blockers to improve flow.'',
                     impact = HighImpact\<rparr>]
               else recommendations)))"

text \<open>\<open>f.category.toLowerCase().replace('_', ' ')\<close> on the five category names.\<close>

fun categoryText :: "RiskCategory \<Rightarrow> string" where
  "categoryText PR_DELAYS = ''pr delays''"
| "categoryText HIGH_WIP = ''high wip''"
| "categoryText COMPLEXITY = ''complexity''"
| "categoryText CARRYOVER = ''carryover''"
| "categoryText BOTTLENECK = ''bottleneck''"

definition generateProcessRecommendations ::
  "fmt \<Rightarrow> RiskAssessment \<Rightarrow> SprintMetrics \<Rightarrow> PRMetrics \<Rightarrow> Recommendation list" where
  "generateProcessRecommendations f riskAssessment sprintMetrics prMetrics =
     (let recs1 =
            (if averageRevisions prMetrics > 3 then
               [\<lparr>priority = 4, recCategory = PROCESS,
                 title = ''Reduce PR revision cycles'',
                 recDescription =
                   ''Average of '' @ toFixed f (averageRevisions prMetrics) 1
                   @ '' revisions per PR. Consider implementing PR checklists, clearer acceptance criteria, or pair programming to reduce rework.'',
                 impact = MediumImpact\<rparr>]
             else []);
          recs2 =
            (if length (factors riskAssessment) > 0 then
               (let topFactors =
                      join '' and '' (map (\<lambda>fa. categoryText (category fa))
                                        (take 2 (factors riskAssessment)))
                in recs1
                   @ [\<lparr>priority = 5, recCategory = PLANNING,
                       title = ''Focus retrospective on key risk areas'',
                       recDescription =
                         ''In the next retrospective, prioritize discussion on '' @ topFactors
                         @ ''. Use data from this analysis to identify root causes and actionable improvements.'',
                       impact = MediumImpact\<rparr>])
             else recs1)
      in if completionRate sprintMetrics < 60 then
           recs2
           @ [\<lparr>priority = 4, recCategory = PLANNING,
               title = ''Improve sprint planning and estimation'',
               recDescription =
                 ''Completion rate of '' @ toFixed f (completionRate sprintMetrics) 0
                 @ ''% suggests estimation or planning issues. Review task breakdown and consider using historical data for more accurate estimates.'',
               impact = MediumImpact\<rparr>]
         else recs2)"

fun impactOrder :: "Impact \<Rightarrow> real" where
  "impactOrder HighImpact = 0"
| "impactOrder MediumImpact = 1"
| "impactOrder LowImpact = 2"

definition compareRecommendations :: "Recommendation \<Rightarrow> Recommendation \<Rightarrow> real" where
  "compareRecommendations a b =
     (if priority a \<noteq> priority b then of_nat (priority a) - of_nat (priority b)
      else impactOrder (impact a) - impactOrder (impact b))"

definition prioritizeRecommendations :: "Recommendation list \<Rightarrow> Recommendation list" where
  "prioritizeRecommendations recommendations =
     (let sorted = sortBy compareRecommendations recommendations
      in map (\<lambda>(index, rec). rec\<lparr>priority := index + 1\<rparr>) (enumerate 0 (take 7 sorted)))"

definition generateRecommendations ::
  "fmt \<Rightarrow> int \<Rightarrow> RiskAssessment \<Rightarrow> SprintMetrics \<Rightarrow> PRMetrics \<Rightarrow> IssueData list
   \<Rightarrow> PullRequestData list \<Rightarrow> BottleneckInfo list option \<Rightarrow> Recommendation list" where
  "generateRecommendations f now riskAssessment sprintMetrics prMetrics iss prs bottlenecks =
     (let scopeRecs = generateScopeRecommendations f now riskAssessment sprintMetrics iss;
          reviewerRecs = generateReviewerRecommendations f prs prMetrics;
          wipRecs = generateWIPRecommendations f sprintMetrics iss bottlenecks;
          processRecs = generateProcessRecommendations f riskAssessment sprintMetrics prMetrics
      in prioritizeRecommendations (scopeRecs @ reviewerRecs @ wipRecs @ processRecs))"

text \<open>The recommendations before \<open>prioritizeRecommendations\<close>, in the order they are pushed.\<close>

definition generatedItems ::
  "fmt \<Rightarrow> int \<Rightarrow> RiskAssessment \<Rightarrow> SprintMetrics \<Rightarrow> PRMetrics \<Rightarrow> IssueData list
   \<Rightarrow> PullRequestData list \<Rightarrow> BottleneckInfo list option \<Rightarrow> Recommendation list" where
  "generatedItems f now riskAssessment sprintMetrics prMetrics iss prs bottlenecks =
     generateScopeRecommendations f now riskAssessment sprintMetrics iss
     @ generateReviewerRecommendations f prs prMetrics
     @ generateWIPRecommendations f sprintMetrics iss bottlenecks
     @ generateProcessRecommendations f riskAssessment sprintMetrics prMetrics"

section \<open>AnalysisOrchestrator.ts\<close>

record ReviewerAssignment =
  reviewer :: string
  recommendedPRCount :: int
  rationale :: string

record NextSprintSuggestions =
  targetStoryPoints :: int
  tasksToInclude :: "string list"
  tasksToPostpone :: "string list"
  reviewerAssignments :: "ReviewerAssignment list"

record ReportRisk =
  reportLevel :: RiskLevel
  reportJustification :: string

record ReportMetrics =
  sprint :: SprintMetrics
  pullRequests :: PRMetrics

record SprintReport =
  reportSummary :: string
  keyFindings :: "string list"
  riskAssessment :: ReportRisk
  recommendations :: "Recommendation list"
  nextSprintSuggestions :: "NextSprintSuggestions option"
  metrics :: ReportMetrics
  generatedAt :: int

text \<open>
  What a \<open>throw\<close> carries: an \<open>Error\<close> with its message, or any other value.  An awaited call
  either rejects (\<open>Inl\<close>) or resolves (\<open>Inr\<close>).
\<close>

datatype thrown = Error string | NonError

text \<open>
  The collaborators of the orchestrator, each given by the outcome of its calls during one
  pass: the storage service, the Jira and Bitbucket collectors and the clock.  Steps 3 to 8
  of \<open>analyzeSprint\<close> (metrics, risk, spillover, recommendations, suggestions, report) are the
  field \<open>computeReport\<close>, which yields the report with the two metrics records or throws.
  \<open>sprintDataRejectsFirst\<close> settles which rejection \<open>Promise.all\<close> reports when both
  Jira requests reject.
\<close>

record env =
  storage_getReport :: "string \<Rightarrow> thrown + SprintReport option"
  storage_getCachedSprintData :: "string \<Rightarrow> thrown + (SprintData \<times> IssueData list) option"
  storage_getCachedPRData :: "string \<Rightarrow> thrown + PullRequestData list option"
  storage_cacheSprintData :: "string \<Rightarrow> SprintData \<times> IssueData list \<Rightarrow> thrown + unit"
  storage_cachePRData :: "string \<Rightarrow> PullRequestData list \<Rightarrow> thrown + unit"
  storage_storeReport :: "string \<Rightarrow> SprintReport \<Rightarrow> thrown + unit"
  storage_storeHistoricalMetrics ::
    "string \<Rightarrow> string \<Rightarrow> int \<Rightarrow> SprintMetrics \<Rightarrow> PRMetrics \<Rightarrow> thrown + unit"
  storage_getHistoricalMetric :: "string \<Rightarrow> thrown + HistoricalMetrics option"
  jira_getSprintData :: "string \<Rightarrow> thrown + SprintData"
  jira_getSprintIssues :: "string \<Rightarrow> thrown + IssueData list"
  jira_getHistoricalSprints :: "string \<Rightarrow> nat \<Rightarrow> thrown + SprintData list"
  bitbucket_getPullRequestsForSprint :: "string list \<Rightarrow> thrown + PullRequestData list"
  computeReport ::
    "SprintData \<Rightarrow> IssueData list \<Rightarrow> PullRequestData list \<Rightarrow> HistoricalMetrics option
     \<Rightarrow> thrown + (SprintReport \<times> SprintMetrics \<times> PRMetrics)"
  sprintDataRejectsFirst :: bool
  clock :: int

definition promiseAll2 :: "bool \<Rightarrow> thrown + 'a \<Rightarrow> thrown + 'b \<Rightarrow> thrown + ('a \<times> 'b)" where
  "promiseAll2 firstRejectsFirst p q =
     (case p of
        Inr a \<Rightarrow> (case q of Inr b \<Rightarrow> Inr (a, b) | Inl e \<Rightarrow> Inl e)
      | Inl e \<Rightarrow> (case q of Inr b \<Rightarrow> Inl e | Inl e' \<Rightarrow> Inl (if firstRejectsFirst then e else e')))"

definition errorMessageOr :: "thrown \<Rightarrow> string \<Rightarrow> string" where
  "errorMessageOr e other = (case e of Error msg \<Rightarrow> msg | NonError \<Rightarrow> other)"

definition getCachedReport :: "env \<Rightarrow> string \<Rightarrow> SprintReport option" where
  "getCachedReport E sid = (case storage_getReport E sid of Inl e \<Rightarrow> None | Inr r \<Rightarrow> r)"

definition getHistoricalMetrics :: "env \<Rightarrow> string \<Rightarrow> string \<Rightarrow> HistoricalMetrics option" where
  "getHistoricalMetrics E boardId currentSprintId =
     (case jira_getHistoricalSprints E boardId 5 of
        Inl e \<Rightarrow> None
      | Inr historicalSprints \<Rightarrow>
          (case filter (\<lambda>s. sprintId s \<noteq> currentSprintId) historicalSprints of
             [] \<Rightarrow> None
           | mostRecentSprint # _ \<Rightarrow>
               (case storage_getHistoricalMetric E (sprintId mostRecentSprint) of
                  Inl e \<Rightarrow> None
                | Inr historicalMetric \<Rightarrow> historicalMetric)))"

definition fetchJiraData :: "env \<Rightarrow> string \<Rightarrow> thrown + (SprintData \<times> IssueData list)" where
  "fetchJiraData E sid =
     (case promiseAll2 (sprintDataRejectsFirst E) (jira_getSprintData E sid)
             (jira_getSprintIssues E sid) of
        Inr r \<Rightarrow> Inr r
      | Inl e \<Rightarrow>
          Inl (Error (''Failed to fetch sprint data from Jira: '' @ errorMessageOr e ''Unknown error'')))"

definition fetchBitbucketData :: "env \<Rightarrow> IssueData list \<Rightarrow> PullRequestData list" where
  "fetchBitbucketData E iss =
     (let issueKeys = map key iss
      in case bitbucket_getPullRequestsForSprint E issueKeys of
           Inr prs \<Rightarrow> prs
         | Inl e \<Rightarrow> [])"

text \<open>\<open>boardId ? getHistoricalMetrics(boardId, sprintId) : null\<close>.\<close>

definition historicalFor :: "env \<Rightarrow> string option \<Rightarrow> string \<Rightarrow> HistoricalMetrics option" where
  "historicalFor E boardId sid =
     (case boardId of
        None \<Rightarrow> None
      | Some b \<Rightarrow> if b = [] then None else getHistoricalMetrics E b sid)"

text \<open>
  The part of \<open>collectData\<close> after the cache check: fetch, then write both caches.  The
  historical lookup runs beside the Jira fetch and never rejects.  When both cache writes
  reject, the rejection of the first is the one reported.
\<close>

definition fetchAndCache ::
  "env \<Rightarrow> string \<Rightarrow> string option
   \<Rightarrow> thrown + (SprintData \<times> IssueData list \<times> PullRequestData list \<times> HistoricalMetrics option)" where
  "fetchAndCache E sid boardId =
     (case fetchJiraData E sid of
        Inl e \<Rightarrow> Inl e
      | Inr (sp, iss) \<Rightarrow>
          (let historicalMetrics = historicalFor E boardId sid;
               prs = fetchBitbucketData E iss
           in case promiseAll2 True (storage_cacheSprintData E sid (sp, iss))
                     (storage_cachePRData E sid prs) of
                Inl e \<Rightarrow> Inl e
              | Inr _ \<Rightarrow> Inr (sp, iss, prs, historicalMetrics)))"

definition collectData ::
  "env \<Rightarrow> string \<Rightarrow> string option \<Rightarrow> bool
   \<Rightarrow> thrown + (SprintData \<times> IssueData list \<times> PullRequestData list \<times> HistoricalMetrics option)" where
  "collectData E sid boardId forceRefresh =
     (if \<not> forceRefresh then
        (case storage_getCachedSprintData E sid of
           Inl e \<Rightarrow> Inl e
         | Inr cachedSprintData \<Rightarrow>
             (case storage_getCachedPRData E sid of
                Inl e \<Rightarrow> Inl e
              | Inr cachedPRData \<Rightarrow>
                  (case cachedSprintData of
                     Some (sp, iss) \<Rightarrow>
                       (case cachedPRData of
                          Some prs \<Rightarrow> Inr (sp, iss, prs, historicalFor E boardId sid)
                        | None \<Rightarrow> fetchAndCache E sid boardId)
                   | None \<Rightarrow> fetchAndCache E sid boardId)))
      else fetchAndCache E sid boardId)"

definition handleAnalysisError :: "env \<Rightarrow> thrown \<Rightarrow> string \<Rightarrow> SprintReport" where
  "handleAnalysisError E e sid =
     (let errorMessage = errorMessageOr e ''Unknown error occurred''
      in \<lparr>reportSummary = ''Analysis failed for sprint '' @ sid @ ''. '' @ errorMessage,
          keyFindings =
            [''Unable to complete analysis due to an error.'',
             ''Please check system logs for details.'',
             ''Try refreshing the analysis or contact support if the issue persists.''],
          riskAssessment =
            \<lparr>reportLevel = High,
             reportJustification = ''Analysis could not be completed due to system error.''\<rparr>,
          recommendations =
            [\<lparr>priority = 1, recCategory = PROCESS, title = ''Retry analysis'',
              recDescription =
                ''Click the refresh button to retry the analysis. If the issue persists, contact your system administrator.'',
              impact = HighImpact\<rparr>],
          nextSprintSuggestions = None,
          metrics =
            \<lparr>sprint =
               \<lparr>cycleTime = 0, leadTime = 0, throughput = 0, velocity = 0, wipCount = 0,
                carryOverCount = 0, completionRate = 0\<rparr>,
             pullRequests =
               \<lparr>averageLatency = 0, averageTimeToFirstReview = 0, averageReviewCycles = 0,
                averageRevisions = 0\<rparr>\<rparr>,
          generatedAt = clock E\<rparr>)"

text \<open>
  The body of the \<open>try\<close> block of \<open>analyzeSprint\<close>.  \<open>cacheReport\<close> and
  \<open>storeHistoricalMetrics\<close> catch what the storage throws, so their outcome does not reach
  the result.
\<close>

definition analyzeSprintBody :: "env \<Rightarrow> string \<Rightarrow> string option \<Rightarrow> bool \<Rightarrow> thrown + SprintReport" where
  "analyzeSprintBody E sid boardId forceRefresh =
     (case (if \<not> forceRefresh then getCachedReport E sid else None) of
        Some cachedReport \<Rightarrow> Inr cachedReport
      | None \<Rightarrow>
          (case collectData E sid boardId forceRefresh of
             Inl e \<Rightarrow> Inl e
           | Inr (sp, iss, prs, historicalMetrics) \<Rightarrow>
               (case computeReport E sp iss prs historicalMetrics of
                  Inl e \<Rightarrow> Inl e
                | Inr (report, sprintMetrics, prMetrics) \<Rightarrow> Inr report)))"

definition analyzeSprint :: "env \<Rightarrow> string \<Rightarrow> string option \<Rightarrow> bool \<Rightarrow> SprintReport" where
  "analyzeSprint E sid boardId forceRefresh =
     (case analyzeSprintBody E sid boardId forceRefresh of
        Inr report \<Rightarrow> report
      | Inl e \<Rightarrow> handleAnalysisError E e sid)"

text \<open>The shape of the degraded report the orchestrator synthesizes.\<close>

definition zeroSprintMetrics :: SprintMetrics where
  "zeroSprintMetrics =
     \<lparr>cycleTime = 0, leadTime = 0, throughput = 0, velocity = 0, wipCount = 0,
      carryOverCount = 0, completionRate = 0\<rparr>"

definition zeroPRMetrics :: PRMetrics where
  "zeroPRMetrics =
     \<lparr>averageLatency = 0, averageTimeToFirstReview = 0, averageReviewCycles = 0,
      averageRevisions = 0\<rparr>"

definition isDegradedReport :: "SprintReport \<Rightarrow> bool" where
  "isDegradedReport r =
     (reportLevel (riskAssessment r) = High
      \<and> length (recommendations r) = 1
      \<and> list_all (\<lambda>rec. recCategory rec = PROCESS \<and> priority rec = 1
                          \<and> title rec = ''Retry analysis'') (recommendations r)
      \<and> sprint (metrics r) = zeroSprintMetrics
      \<and> pullRequests (metrics r) = zeroPRMetrics)"

section \<open>Specification-level notions and example inputs\<close>

text \<open>The mean of a list of numbers, 0 for the empty list.\<close>

definition mean :: "real list \<Rightarrow> real" where
  "mean xs = (if xs = [] then 0 else sum_list xs / of_nat (length xs))"

text \<open>Created-to-merged hours of the merged requests, created-to-first-review hours of the
  requests that have a first review.\<close>

definition mergedLatencies :: "PullRequestData list \<Rightarrow> real list" where
  "mergedLatencies prs =
     List.map_filter
       (\<lambda>pr. if prState pr = MERGED
             then map_option (\<lambda>m. hoursOfMs (m - createdAt pr)) (mergedAt pr)
             else None) prs"

definition firstReviewTimes :: "PullRequestData list \<Rightarrow> real list" where
  "firstReviewTimes prs =
     List.map_filter (\<lambda>pr. map_option (\<lambda>r. hoursOfMs (r - createdAt pr)) (firstReviewAt pr)) prs"

definition plainFmt :: fmt where
  "plainFmt = \<lparr>toFixed = (\<lambda>x d. ''#''), numToString = (\<lambda>x. ''#'')\<rparr>"

text \<open>A transition into a status at a given hour; an issue with given transitions.\<close>

definition transitionAt :: "string \<Rightarrow> int \<Rightarrow> StatusTransition" where
  "transitionAt st h = \<lparr>fromStatus = ''To Do'', toStatus = st, timestamp = h * 3600000\<rparr>"

definition exampleIssue ::
  "string \<Rightarrow> string \<Rightarrow> real option \<Rightarrow> string option \<Rightarrow> StatusTransition list \<Rightarrow> IssueData" where
  "exampleIssue k st sp a ts =
     \<lparr>issueId = k, key = k, summary = ''Test issue'', assignee = a, storyPoints = sp,
      status = st, statusTransitions = ts, linkedPRs = []\<rparr>"

definition exampleSprint :: "int \<Rightarrow> SprintData" where
  "exampleSprint e =
     \<lparr>sprintId = ''sprint-1'', sprintName = ''Test Sprint'', sprintState = active,
      startDate = 0, endDate = e, goal = None\<rparr>"

definition bounceTransitions :: "StatusTransition list" where
  "bounceTransitions =
     [transitionAt ''In Progress'' 0, transitionAt ''Done'' 10, transitionAt ''In Progress'' 20]"

definition examplePR ::
  "string \<Rightarrow> PRState \<Rightarrow> int option \<Rightarrow> int option \<Rightarrow> nat \<Rightarrow> PullRequestData" where
  "examplePR i st firstReviewHour mergedHour revisions =
     \<lparr>prId = i, prTitle = ''Test PR'', author = ''dev'', createdAt = 0,
      firstReviewAt = map_option (\<lambda>h. h * 3600000) firstReviewHour,
      mergedAt = map_option (\<lambda>h. h * 3600000) mergedHour, prState = st, reviewers = [],
      revisionCount = revisions, linkedIssues = []\<rparr>"

text \<open>
  The completion probability \<open>predictSpillover\<close> computes for an issue, and the prediction it
  emits for it.
\<close>

definition completionProbabilityOf ::
  "fmt \<Rightarrow> int \<Rightarrow> SprintData \<Rightarrow> int \<Rightarrow> SprintMetrics option \<Rightarrow> IssueData \<Rightarrow> real" where
  "completionProbabilityOf f now spr currentDate sprintMetrics issue =
     fst (calculateCompletionProbability f now issue (calculateDaysRemaining spr currentDate)
            (calculateHoursPerStoryPoint sprintMetrics) sprintMetrics)"

definition predictionOf ::
  "fmt \<Rightarrow> int \<Rightarrow> SprintData \<Rightarrow> int \<Rightarrow> SprintMetrics option \<Rightarrow> IssueData \<Rightarrow> SpilloverPrediction" where
  "predictionOf f now spr currentDate sprintMetrics issue =
     (let prediction =
            calculateCompletionProbability f now issue (calculateDaysRemaining spr currentDate)
              (calculateHoursPerStoryPoint sprintMetrics) sprintMetrics
      in \<lparr>issueKey = key issue, probability = 1 - fst prediction, reasons = snd prediction\<rparr>)"

definition sprintEndedPrediction :: "IssueData \<Rightarrow> SpilloverPrediction" where
  "sprintEndedPrediction issue =
     \<lparr>issueKey = key issue, probability = 1,
      reasons = [''Sprint has ended and issue is not completed'']\<rparr>"

definition spilloverIssues :: "IssueData list" where
  "spilloverIssues =
     [exampleIssue ''ISSUE-1'' ''In Progress'' (Some 5) (Some ''user1'') [],
      exampleIssue ''ISSUE-2'' ''To Do'' (Some 13) None [],
      exampleIssue ''ISSUE-3'' ''Done'' (Some 3) (Some ''user3'') []]"

text \<open>
  The order recommendations are sorted by: priority ascending, then impact with High before
  Medium before Low.
\<close>

definition precedes :: "Recommendation \<Rightarrow> Recommendation \<Rightarrow> bool" where
  "precedes a b =
     (priority a < priority b
      \<or> (priority a = priority b \<and> impactOrder (impact a) \<le> impactOrder (impact b)))"

definition exampleFactor :: "real \<Rightarrow> RiskFactor" where
  "exampleFactor sev = \<lparr>category = HIGH_WIP, severity = sev, description = ''Test factor''\<rparr>"

definition exampleRisk :: RiskAssessment where
  "exampleRisk = \<lparr>level = High, score = 80, factors = [exampleFactor 8], justification = ''j''\<rparr>"

definition exampleSprintMetrics :: SprintMetrics where
  "exampleSprintMetrics =
     \<lparr>cycleTime = 0, leadTime = 0, throughput = 0, velocity = 0, wipCount = 6,
      carryOverCount = 0, completionRate = 40\<rparr>"

definition examplePRMetrics :: PRMetrics where
  "examplePRMetrics =
     \<lparr>averageLatency = 0, averageTimeToFirstReview = 30, averageReviewCycles = 0,
      averageRevisions = 4\<rparr>"

definition exampleBottleneck :: BottleneckInfo where
  "exampleBottleneck =
     \<lparr>location = ''In Review'', bottleneckType = STATUS, affectedIssues = [''P-1'', ''P-2''],
      bottleneckSeverity = 5, bottleneckDescription = ''Slow.''\<rparr>"

definition overloadedIssues :: "IssueData list" where
  "overloadedIssues =
     map (\<lambda>k. exampleIssue k ''In Progress'' (Some 8) (Some ''John'') [])
       [''P-1'', ''P-2'', ''P-3'', ''P-4'', ''P-5'', ''P-6'']"

text \<open>
  The number of issues of an assignee whose status contains \<open>progress\<close> or \<open>review\<close> (what
  \<open>detectHighWIP\<close> counts), and the number of issues of an assignee whose status is active
  by the keyword list of \<open>MetricsCalculator\<close>.
\<close>

definition wipOf :: "IssueData list \<Rightarrow> string \<Rightarrow> nat" where
  "wipOf iss a = length (filter (\<lambda>i. isProgressOrReview i \<and> assignee i = Some a) iss)"

definition activeWipOf :: "IssueData list \<Rightarrow> string \<Rightarrow> nat" where
  "activeWipOf iss a = length (filter (\<lambda>i. isActiveStatus (status i) \<and> assignee i = Some a) iss)"

definition testingIssues :: "IssueData list" where
  "testingIssues =
     map (\<lambda>k. exampleIssue k ''Testing'' (Some 3) (Some ''John'') [])
       [''P-1'', ''P-2'', ''P-3'', ''P-4'', ''P-5'']"

text \<open>One issue that enters \<open>In Review\<close> twice and stays there 100 hours each time.\<close>

definition bouncingIssue :: IssueData where
  "bouncingIssue =
     exampleIssue ''PROJ-1'' ''Blocked'' (Some 5) (Some ''John'')
       [transitionAt ''In Review'' 0, transitionAt ''In Progress'' 100,
        transitionAt ''In Review'' 101, transitionAt ''In Progress'' 201,
        transitionAt ''Blocked'' 202]"

text \<open>A pass with empty caches in which the request for the sprint's issues fails.\<close>

definition failingEnv :: env where
  "failingEnv =
     \<lparr>storage_getReport = (\<lambda>sid. Inr None),
      storage_getCachedSprintData = (\<lambda>sid. Inr None),
      storage_getCachedPRData = (\<lambda>sid. Inr None),
      storage_cacheSprintData = (\<lambda>sid d. Inr ()),
      storage_cachePRData = (\<lambda>sid prs. Inr ()),
      storage_storeReport = (\<lambda>sid r. Inr ()),
      storage_storeHistoricalMetrics = (\<lambda>sid n c m pm. Inr ()),
      storage_getHistoricalMetric = (\<lambda>sid. Inr None),
      jira_getSprintData = (\<lambda>sid. Inr (exampleSprint 0)),
      jira_getSprintIssues = (\<lambda>sid. Inl (Error ''Jira API unavailable'')),
      jira_getHistoricalSprints = (\<lambda>b n. Inr []),
      bitbucket_getPullRequestsForSprint = (\<lambda>ks. Inr []),
      computeReport = (\<lambda>sp iss prs h. Inl NonError),
      sprintDataRejectsFirst = True,
      clock = 0\<rparr>"

section \<open>Rounding to binary64\<close>

lemma roundHalfEven_of_int: "roundHalfEven (of_int k) = k"
  by (simp add: roundHalfEven_def)

lemma roundHalfEven_bounds: "\<lfloor>z\<rfloor> \<le> roundHalfEven z \<and> roundHalfEven z \<le> \<lfloor>z\<rfloor> + 1"
  by (simp add: roundHalfEven_def Let_def)

lemma roundHalfEven_error: "\<bar>of_int (roundHalfEven z) - z\<bar> \<le> 1 / 2"
proof -
  have "of_int \<lfloor>z\<rfloor> \<le> z" "z < of_int \<lfloor>z\<rfloor> + 1" by linarith+
  then show ?thesis
    by (auto simp: roundHalfEven_def Let_def abs_le_iff)
qed

lemma roundHalfEven_mono: "z1 \<le> z2 \<Longrightarrow> roundHalfEven z1 \<le> roundHalfEven z2"
proof -
  assume le: "z1 \<le> z2"
  then have fl: "\<lfloor>z1\<rfloor> \<le> \<lfloor>z2\<rfloor>" by (rule floor_mono)
  show ?thesis
  proof (cases "\<lfloor>z1\<rfloor> = \<lfloor>z2\<rfloor>")
    case True
    with le show ?thesis
      by (auto simp: roundHalfEven_def Let_def)
  next
    case False
    with fl have "\<lfloor>z1\<rfloor> + 1 \<le> \<lfloor>z2\<rfloor>" by simp
    with roundHalfEven_bounds [of z1] roundHalfEven_bounds [of z2] show ?thesis by linarith
  qed
qed

lemma expUp_range: "0 \<le> expUp k x \<and> expUp k x \<le> int k"
  by (induction k arbitrary: x) auto

lemma expUp_lower: "1 \<le> x \<Longrightarrow> 2 powi (expUp k x) \<le> x"
proof (induction k arbitrary: x)
  case 0
  then show ?case by simp
next
  case (Suc k)
  show ?case
  proof (cases "2 \<le> x")
    case True
    then have "2 powi (expUp k (x / 2)) \<le> x / 2" by (intro Suc.IH) simp
    then have "2 powi (expUp k (x / 2)) * 2 \<le> x" by simp
    with True show ?thesis by (simp add: power_int_add)
  next
    case False
    with Suc.prems show ?thesis by simp
  qed
qed

lemma expUp_upper: "expUp k x < int k \<Longrightarrow> x < 2 powi (expUp k x + 1)"
proof (induction k arbitrary: x)
  case 0
  then show ?case by simp
next
  case (Suc k)
  show ?case
  proof (cases "2 \<le> x")
    case True
    with Suc.prems have "expUp k (x / 2) < int k" by simp
    then have "x / 2 < 2 powi (expUp k (x / 2) + 1)" by (rule Suc.IH)
    then have "x < 2 powi (expUp k (x / 2) + 1) * 2" by simp
    with True show ?thesis by (simp add: power_int_add)
  next
    case False
    then show ?thesis by simp
  qed
qed

lemma expDown_range: "- int k \<le> expDown k x \<and> expDown k x \<le> 0"
proof (induction k arbitrary: x)
  case 0
  then show ?case by simp
next
  case (Suc k)
  from Suc [of "x * 2"] show ?case by auto
qed

lemma expDown_upper: "x < 2 \<Longrightarrow> x < 2 powi (expDown k x + 1)"
proof (induction k arbitrary: x)
  case 0
  then show ?case by simp
next
  case (Suc k)
  show ?case
  proof (cases "x < 1")
    case True
    then have "x * 2 < 2 powi (expDown k (x * 2) + 1)" by (intro Suc.IH) simp
    then have "x * 2 < 2 powi (expDown k (x * 2)) * 2" by (simp add: power_int_add)
    with True show ?thesis by simp
  next
    case False
    with Suc.prems show ?thesis by simp
  qed
qed

lemma expDown_lower: "- int k < expDown k x \<Longrightarrow> 2 powi (expDown k x) \<le> x"
proof (induction k arbitrary: x)
  case 0
  then show ?case by simp
next
  case (Suc k)
  show ?case
  proof (cases "x < 1")
    case True
    with Suc.prems have "- int k < expDown k (x * 2)" by simp
    then have "2 powi (expDown k (x * 2)) \<le> x * 2" by (rule Suc.IH)
    moreover have "2 powi (expDown k (x * 2)) = (2::real) powi (expDown k (x * 2) - 1) * 2"
      by (simp add: power_int_diff)
    ultimately show ?thesis using True by simp
  next
    case False
    then show ?thesis by simp
  qed
qed

lemma exponent_range: "- 1022 \<le> exponent x \<and> exponent x \<le> 1023"
  using expUp_range [of 1023 "\<bar>x\<bar>"] expDown_range [of 1022 "\<bar>x\<bar>"]
  by (auto simp: exponent_def)

lemma exponent_upper: "0 \<le> x \<Longrightarrow> exponent x < 1023 \<Longrightarrow> x < 2 powi (exponent x + 1)"
  using expUp_upper [of 1023 x] expDown_upper [of x 1022]
  by (auto simp: exponent_def)

lemma exponent_lower: "0 \<le> x \<Longrightarrow> - 1022 < exponent x \<Longrightarrow> 2 powi (exponent x) \<le> x"
  using expUp_lower [of x 1023] expDown_lower [of 1022 x]
  by (auto simp: exponent_def)

lemma ulp_pos: "0 < ulp x"
  by (simp add: ulp_def)

lemma exponent_mono: "0 \<le> x \<Longrightarrow> x \<le> y \<Longrightarrow> exponent x \<le> exponent y"
proof (rule ccontr)
  assume x: "0 \<le> x" and le: "x \<le> y" and "\<not> exponent x \<le> exponent y"
  then have lt: "exponent y < exponent x" by simp
  with exponent_range [of x] have "exponent y < 1023" by simp
  with x le have "y < 2 powi (exponent y + 1)" by (intro exponent_upper) simp_all
  also have "(2::real) powi (exponent y + 1) \<le> 2 powi (exponent x)"
    using lt by (intro power_int_increasing) simp_all
  also have "\<dots> \<le> x"
    using x lt exponent_range [of y] by (intro exponent_lower) simp_all
  finally show False using le by simp
qed

lemma pow2_split: "(2::real) powi a * 2 powi b = 2 powi (a + b)"
  by (simp add: power_int_add)

lemma ulp_scale:
  "ulp x * 2 ^ 52 = 2 powi (exponent x)" "ulp x * 2 ^ 53 = 2 powi (exponent x + 1)"
  using pow2_split [of "exponent x - 52" 52] pow2_split [of "exponent x - 52" 53]
  by (simp_all add: ulp_def add.commute)

lemma toDouble_below_next:
  assumes "0 \<le> x" "exponent x < 1023"
  shows "toDouble x \<le> 2 powi (exponent x + 1)"
proof -
  have "x \<le> 2 ^ 53 * ulp x"
    using exponent_upper [OF assms] ulp_scale(2) [of x] by (simp add: mult.commute)
  then have "x / ulp x \<le> of_int (2 ^ 53)"
    using ulp_pos [of x] by (simp add: pos_divide_le_eq)
  then have "roundHalfEven (x / ulp x) \<le> roundHalfEven (of_int (2 ^ 53))"
    by (rule roundHalfEven_mono)
  then have "roundHalfEven (x / ulp x) \<le> 2 ^ 53"
    by (simp only: roundHalfEven_of_int)
  then have "(of_int (roundHalfEven (x / ulp x)) :: real) \<le> of_int (2 ^ 53)"
    by (simp only: of_int_le_iff)
  then have "toDouble x \<le> of_int (2 ^ 53) * ulp x"
    unfolding toDouble_def using ulp_pos [of x] by (intro mult_right_mono) simp_all
  then show ?thesis
    using ulp_scale(2) [of x] by (simp add: mult.commute)
qed

lemma toDouble_above_binade:
  assumes "0 \<le> x" "- 1022 < exponent x"
  shows "2 powi (exponent x) \<le> toDouble x"
proof -
  have "2 ^ 52 * ulp x \<le> x"
    using exponent_lower [OF assms] ulp_scale(1) [of x] by (simp add: mult.commute)
  then have "of_int (2 ^ 52) \<le> x / ulp x"
    using ulp_pos [of x] by (simp add: pos_le_divide_eq)
  then have "roundHalfEven (of_int (2 ^ 52)) \<le> roundHalfEven (x / ulp x)"
    by (rule roundHalfEven_mono)
  then have "2 ^ 52 \<le> roundHalfEven (x / ulp x)"
    by (simp only: roundHalfEven_of_int)
  then have "(of_int (2 ^ 52) :: real) \<le> of_int (roundHalfEven (x / ulp x))"
    by (simp only: of_int_le_iff)
  then have "of_int (2 ^ 52) * ulp x \<le> toDouble x"
    unfolding toDouble_def using ulp_pos [of x] by (intro mult_right_mono) simp_all
  then show ?thesis
    using ulp_scale(1) [of x] by (simp add: mult.commute)
qed

lemma toDouble_mono:
  assumes x: "0 \<le> x" and le: "x \<le> y"
  shows "toDouble x \<le> toDouble y"
proof (cases "exponent x = exponent y")
  case True
  then have u: "ulp x = ulp y" by (simp add: ulp_def)
  have "x / ulp y \<le> y / ulp y"
    using le ulp_pos [of y] by (simp add: divide_right_mono)
  then have "roundHalfEven (x / ulp y) \<le> roundHalfEven (y / ulp y)"
    by (rule roundHalfEven_mono)
  then show ?thesis
    unfolding toDouble_def u using ulp_pos [of y] by (intro mult_right_mono) simp_all
next
  case False
  with exponent_mono [OF x le] have lt: "exponent x < exponent y" by simp
  have "toDouble x \<le> 2 powi (exponent x + 1)"
    using x lt exponent_range [of y] by (intro toDouble_below_next) simp_all
  also have "(2::real) powi (exponent x + 1) \<le> 2 powi (exponent y)"
    using lt by (intro power_int_increasing) simp_all
  also have "\<dots> \<le> toDouble y"
    using x le lt exponent_range [of x] by (intro toDouble_above_binade) simp_all
  finally show ?thesis .
qed

lemma toDouble_0: "toDouble 0 = 0"
  by (simp add: toDouble_def roundHalfEven_def)

lemma toDouble_nonneg: "0 \<le> x \<Longrightarrow> 0 \<le> toDouble x"
  using toDouble_mono [of 0 x] by (simp add: toDouble_0)

lemma toDouble_error: "\<bar>toDouble x - x\<bar> \<le> ulp x / 2"
proof -
  have "\<bar>of_int (roundHalfEven (x / ulp x)) - x / ulp x\<bar> * ulp x \<le> 1 / 2 * ulp x"
    using roundHalfEven_error [of "x / ulp x"] ulp_pos [of x]
    by (intro mult_right_mono) simp_all
  moreover have "\<bar>of_int (roundHalfEven (x / ulp x)) - x / ulp x\<bar> * ulp x = \<bar>toDouble x - x\<bar>"
  proof -
    have "\<bar>of_int (roundHalfEven (x / ulp x)) - x / ulp x\<bar> * ulp x
          = \<bar>(of_int (roundHalfEven (x / ulp x)) - x / ulp x) * ulp x\<bar>"
      using ulp_pos [of x] by (simp add: abs_mult)
    also have "(of_int (roundHalfEven (x / ulp x)) - x / ulp x) * ulp x = toDouble x - x"
      using ulp_pos [of x] by (simp add: toDouble_def left_diff_distrib)
    finally show ?thesis .
  qed
  ultimately show ?thesis by simp
qed

lemma toDouble_relative_error:
  assumes "2 powi (- 1021) \<le> x"
  shows "\<bar>toDouble x - x\<bar> \<le> x / 2 ^ 53"
proof -
  have "(0::real) < 2 powi (- 1021)" by simp
  with assms have x0: "0 \<le> x" by linarith
  have e: "- 1022 < exponent x"
  proof (rule ccontr)
    assume "\<not> - 1022 < exponent x"
    with exponent_range [of x] have eq: "exponent x = - 1022" by simp
    then have "x < 2 powi (exponent x + 1)" using x0 by (intro exponent_upper) simp_all
    with eq assms show False by simp
  qed
  have "ulp x / 2 = 2 powi (exponent x) / 2 ^ 53"
    using ulp_scale(1) [of x] by simp
  also have "\<dots> \<le> x / 2 ^ 53"
    using exponent_lower [OF x0 e] by (intro divide_right_mono) simp_all
  finally show ?thesis using toDouble_error [of x] by simp
qed

lemma pow2_neg: "(2::real) powi (- int n) = 1 / 2 ^ n"
  by (simp add: power_int_minus divide_inverse)

lemma toDouble_of_int:
  assumes "0 \<le> k" "k < 2 ^ 53"
  shows "toDouble (of_int k) = of_int k"
proof (cases "k = 0")
  case True
  then show ?thesis by (simp add: toDouble_0)
next
  case False
  with assms have k1: "1 \<le> (of_int k :: real)" by simp
  let ?e = "exponent (of_int k)"
  have e0: "0 \<le> ?e"
    using k1 expUp_range [of 1023 "of_int k"] by (simp add: exponent_def)
  have lo: "2 powi ?e \<le> (of_int k :: real)"
    using k1 e0 by (intro exponent_lower) simp_all
  have "(of_int k :: real) < of_int (2 ^ 53)"
    using assms(2) by (simp only: of_int_less_iff)
  also have "(of_int (2 ^ 53) :: real) = 2 powi 53"
    by simp
  finally have "(2::real) powi ?e < 2 powi 53"
    using lo by simp
  then have "?e < 53"
    by (rule power_int_le_imp_less_exp [rotated]) simp_all
  then have m: "?e - 52 = - int (nat (52 - ?e))" by simp
  have u: "ulp (of_int k) = 1 / 2 ^ nat (52 - ?e)"
    by (simp only: ulp_def m pow2_neg)
  have "of_int k / ulp (of_int k) = (of_int (k * 2 ^ nat (52 - ?e)) :: real)"
    by (simp add: u)
  then have "roundHalfEven (of_int k / ulp (of_int k)) = k * 2 ^ nat (52 - ?e)"
    by (simp only: roundHalfEven_of_int)
  then show ?thesis
    by (simp add: toDouble_def u)
qed

lemma tiny_normal: "(2::real) powi (- 1021) \<le> 1 / 2 ^ 40"
proof -
  have "(2::real) powi (- int 1021) \<le> 2 powi (- int 40)"
    by (intro power_int_increasing) simp_all
  then show ?thesis
    by (simp only: pow2_neg) simp
qed

lemma double_chain_error:
  assumes lo: "1 / 2 ^ 32 \<le> a" and hi: "a \<le> 10"
  shows "\<bar>toDouble (toDouble (toDouble a / 10) * 100) - 10 * a\<bar> \<le> 410 / 2 ^ 53"
proof -
  let ?A = "toDouble a"
  let ?B = "toDouble (?A / 10)"
  let ?C = "toDouble (?B * 100)"
  have "2 powi (- 1021) \<le> a" using tiny_normal lo by simp
  then have eA: "\<bar>?A - a\<bar> \<le> a / 2 ^ 53" by (rule toDouble_relative_error)
  have A1: "1 / 2 ^ 33 \<le> ?A"
    using eA [THEN abs_le_D2] lo hi by simp
  have A2: "?A \<le> 11"
    using eA [THEN abs_le_D1] lo hi by simp
  have "2 powi (- 1021) \<le> ?A / 10" using tiny_normal A1 by simp
  then have eB: "\<bar>?B - ?A / 10\<bar> \<le> (?A / 10) / 2 ^ 53" by (rule toDouble_relative_error)
  have B1: "1 / 2 ^ 38 \<le> ?B"
    using eB [THEN abs_le_D2] A1 A2 by simp
  have B2: "?B \<le> 2"
    using eB [THEN abs_le_D1] A1 A2 by simp
  have "2 powi (- 1021) \<le> ?B * 100" using tiny_normal B1 by simp
  then have eC: "\<bar>?C - ?B * 100\<bar> \<le> (?B * 100) / 2 ^ 53" by (rule toDouble_relative_error)
  show ?thesis
  proof (rule abs_leI)
    show "?C - 10 * a \<le> 410 / 2 ^ 53"
      using eA [THEN abs_le_D1] eB [THEN abs_le_D1] eC [THEN abs_le_D1] A2 B2 hi
      by simp
    show "- (?C - 10 * a) \<le> 410 / 2 ^ 53"
      using eA [THEN abs_le_D2] eB [THEN abs_le_D2] eC [THEN abs_le_D2] A2 B2 hi
      by simp
  qed
qed

section \<open>Properties of the risk score\<close>

lemma integerSeverities_member:
  "integerSeverities fs \<Longrightarrow> f \<in> set fs \<Longrightarrow> \<exists>k. 0 \<le> k \<and> k \<le> 10 \<and> severity f = of_int k"
  by (auto simp: integerSeverities_def list_all_iff)

lemma severity_sum_exact:
  "integerSeverities fs \<Longrightarrow> length fs < 2 ^ 32 \<Longrightarrow>
   \<exists>S. 0 \<le> S \<and> S \<le> 10 * int (length fs)
       \<and> foldl (\<lambda>sum factor. fadd sum (severity factor)) 0 fs = of_int S
       \<and> sum_list (map severity fs) = of_int S"
proof (induction fs rule: rev_induct)
  case Nil
  then show ?case by simp
next
  case (snoc f fs)
  from snoc.prems have "integerSeverities fs" "length fs < 2 ^ 32"
    by (simp_all add: integerSeverities_def)
  with snoc.IH obtain S where S: "0 \<le> S" "S \<le> 10 * int (length fs)"
    "foldl (\<lambda>sum factor. fadd sum (severity factor)) 0 fs = of_int S"
    "sum_list (map severity fs) = of_int S"
    by blast
  from snoc.prems obtain k where k: "0 \<le> k" "k \<le> 10" "severity f = of_int k"
    using integerSeverities_member [of "fs @ [f]" f] by auto
  have "int (length fs) < 2 ^ 32"
    using snoc.prems(2) by simp
  with S k have b: "0 \<le> S + k" "S + k < 2 ^ 53" by simp_all
  have "fadd (of_int S) (of_int k) = of_int (S + k)"
    using toDouble_of_int [OF b] by (simp add: fadd_def)
  with S k show ?case
    by (intro exI [of _ "S + k"]) simp
qed

lemma score_of_mean:
  assumes "integerSeverities fs" "fs \<noteq> []" "length fs < 2 ^ 32"
  shows "calculateRiskScore fs
         = min 100 (Math_round (toDouble (toDouble (toDouble (meanSeverity fs) / 10) * 100)))"
proof -
  from severity_sum_exact [OF assms(1,3)] obtain S where
    "foldl (\<lambda>sum factor. fadd sum (severity factor)) 0 fs = of_int S"
    "sum_list (map severity fs) = of_int S"
    by blast
  with assms(2) show ?thesis
    by (simp add: calculateRiskScore_def meanSeverity_def Let_def fdiv_def fmul_def)
qed

lemma mean_range:
  assumes "integerSeverities fs" "fs \<noteq> []" "length fs < 2 ^ 32"
  shows "\<exists>S. 0 \<le> S \<and> S \<le> 10 * int (length fs)
             \<and> meanSeverity fs = of_int S / of_nat (length fs)"
  using severity_sum_exact [OF assms(1,3)] by (auto simp: meanSeverity_def)

lemma Math_round_mono: "x \<le> y \<Longrightarrow> Math_round x \<le> Math_round y"
  unfolding Math_round_def by (intro floor_mono) simp

lemma doubleScore_mono:
  assumes "0 \<le> a" "a \<le> b"
  shows "min 100 (Math_round (toDouble (toDouble (toDouble a / 10) * 100)))
         \<le> min 100 (Math_round (toDouble (toDouble (toDouble b / 10) * 100)))"
proof -
  have A: "toDouble a \<le> toDouble b" and A0: "0 \<le> toDouble a"
    using assms by (simp_all add: toDouble_mono toDouble_nonneg)
  then have B: "toDouble (toDouble a / 10) \<le> toDouble (toDouble b / 10)"
    and B0: "0 \<le> toDouble (toDouble a / 10)"
    by (simp_all add: toDouble_mono toDouble_nonneg)
  then have "toDouble (toDouble (toDouble a / 10) * 100)
             \<le> toDouble (toDouble (toDouble b / 10) * 100)"
    by (simp add: toDouble_mono)
  then show ?thesis
    using Math_round_mono by (simp add: min_le_iff_disj)
qed

lemma floor_stable:
  assumes n: "0 < n" and y: "(y::real) * of_nat n = of_int N" and d: "\<bar>d\<bar> < 1 / of_nat n"
    and ni: "y \<noteq> of_int \<lfloor>y\<rfloor>"
  shows "\<lfloor>y + d\<rfloor> = \<lfloor>y\<rfloor>"
proof -
  let ?q = "\<lfloor>y\<rfloor>"
  have lo: "of_int ?q < y" using ni of_int_floor_le [of y] by linarith
  have hi: "y < of_int ?q + 1" by linarith
  have npos: "(0::real) < of_nat n" using n by simp
  have "of_int ?q * of_nat n < y * of_nat n"
    using lo npos by (simp add: mult_strict_right_mono)
  then have "of_int (?q * int n) < (of_int N :: real)"
    by (simp add: y)
  then have "?q * int n < N" by (simp only: of_int_less_iff)
  then have "?q * int n + 1 \<le> N" by simp
  then have "(of_int (?q * int n + 1) :: real) \<le> of_int N" by (simp only: of_int_le_iff)
  then have l1: "of_int ?q * of_nat n + 1 \<le> y * of_nat n" by (simp add: y)
  have "y * of_nat n < (of_int ?q + 1) * of_nat n"
    using hi npos by (simp add: mult_strict_right_mono)
  then have "(of_int N :: real) < of_int ((?q + 1) * int n)"
    by (simp add: y)
  then have "N < (?q + 1) * int n" by (simp only: of_int_less_iff)
  then have "N + 1 \<le> (?q + 1) * int n" by simp
  then have "(of_int (N + 1) :: real) \<le> of_int ((?q + 1) * int n)" by (simp only: of_int_le_iff)
  then have l2: "y * of_nat n + 1 \<le> (of_int ?q + 1) * of_nat n" by (simp add: y)
  have a: "of_int ?q + 1 / of_nat n \<le> y"
    using l1 npos by (simp add: field_simps)
  have b: "y \<le> of_int ?q + 1 - 1 / of_nat n"
    using l2 npos by (simp add: field_simps)
  from a b d have "of_int ?q \<le> y + d" "y + d < of_int ?q + 1"
    by (simp_all add: abs_less_iff)
  then show ?thesis by (simp add: floor_unique)
qed

lemma floor_near:
  assumes "\<bar>d::real\<bar> < 1"
  shows "(y = of_int \<lfloor>y\<rfloor> \<longrightarrow> \<lfloor>y\<rfloor> - 1 \<le> \<lfloor>y + d\<rfloor> \<and> \<lfloor>y + d\<rfloor> \<le> \<lfloor>y\<rfloor>)"
proof
  assume e: "y = of_int \<lfloor>y\<rfloor>"
  have "of_int (\<lfloor>y\<rfloor> - 1) \<le> y + d" using assms e by (simp add: abs_less_iff)
  then have 1: "\<lfloor>y\<rfloor> - 1 \<le> \<lfloor>y + d\<rfloor>" by (simp only: le_floor_iff)
  have "y + d < of_int (\<lfloor>y\<rfloor> + 1)" using assms e by (simp add: abs_less_iff)
  then have "\<lfloor>y + d\<rfloor> < \<lfloor>y\<rfloor> + 1" by (simp only: floor_less_iff)
  with 1 show "\<lfloor>y\<rfloor> - 1 \<le> \<lfloor>y + d\<rfloor> \<and> \<lfloor>y + d\<rfloor> \<le> \<lfloor>y\<rfloor>" by simp
qed

lemma halfway_iff: "halfway x \<longleftrightarrow> x + 1 / 2 = of_int \<lfloor>x + 1 / 2\<rfloor>"
proof
  assume "halfway x"
  then have x: "x = of_int \<lfloor>x\<rfloor> + 1 / 2" by (simp add: halfway_def)
  have "x + 1 / 2 = of_int (\<lfloor>x\<rfloor> + 1)" using x by simp
  then have "\<lfloor>x + 1 / 2\<rfloor> = \<lfloor>x\<rfloor> + 1" by (simp only: floor_of_int)
  then show "x + 1 / 2 = of_int \<lfloor>x + 1 / 2\<rfloor>" using x by simp
next
  assume e: "x + 1 / 2 = of_int \<lfloor>x + 1 / 2\<rfloor>"
  define k where "k = \<lfloor>x + 1 / 2\<rfloor>"
  have x: "x = of_int (k - 1) + 1 / 2" using e by (simp add: k_def)
  have "\<lfloor>x\<rfloor> = k - 1"
  proof (rule floor_unique)
    show "of_int (k - 1) \<le> x" using x by simp
    show "x < of_int (k - 1) + 1" using x by simp
  qed
  then show "halfway x" using x by (simp add: halfway_def)
qed

lemma small_error:
  assumes "0 < n" "n < (2::nat) ^ 32"
  shows "(410::real) / 2 ^ 53 < 1 / of_nat (2 * n)"
proof -
  have "real n < 2 ^ 32" using assms(2) by (metis of_nat_less_iff of_nat_numeral of_nat_power)
  then have "real (2 * n) < 2 ^ 33" by simp
  moreover have "0 < real (2 * n)" using assms(1) by simp
  ultimately have "1 / (2 ^ 33 :: real) < 1 / real (2 * n)"
    by (intro divide_strict_left_mono) simp_all
  moreover have "(410::real) / 2 ^ 53 < 1 / 2 ^ 33" by simp
  ultimately show ?thesis by linarith
qed

lemma min_same:
  "K = E \<Longrightarrow> c = min 100 K \<Longrightarrow> c = min 100 E \<and> min 100 E - 1 \<le> c \<and> c \<le> min 100 E"
  for K E c :: int
  by (simp add: min_def)

lemma min_near:
  "E - 1 \<le> K \<Longrightarrow> K \<le> E \<Longrightarrow> c = min 100 K \<Longrightarrow> min 100 E - 1 \<le> c \<and> c \<le> min 100 E"
  for K E c :: int
  by (simp add: min_def)

lemma score_near:
  assumes int: "integerSeverities fs" and ne: "fs \<noteq> []" and len: "length fs < 2 ^ 32"
  shows "(\<not> halfway (100 * meanSeverity fs / 10) \<longrightarrow>
            calculateRiskScore fs = min 100 \<lfloor>100 * meanSeverity fs / 10 + 1 / 2\<rfloor>)
         \<and> min 100 \<lfloor>100 * meanSeverity fs / 10 + 1 / 2\<rfloor> - 1 \<le> calculateRiskScore fs
         \<and> calculateRiskScore fs \<le> min 100 \<lfloor>100 * meanSeverity fs / 10 + 1 / 2\<rfloor>"
proof -
  let ?n = "length fs"
  let ?a = "meanSeverity fs"
  let ?C = "toDouble (toDouble (toDouble ?a / 10) * 100)"
  let ?x = "100 * ?a / 10"
  let ?y = "?x + 1 / 2"
  have n: "0 < ?n" using ne by simp
  from mean_range [OF int ne len] obtain S where
    S0: "0 \<le> S" and S10: "S \<le> 10 * int ?n" and a: "?a = of_int S / of_nat ?n" by blast
  have score: "calculateRiskScore fs = min 100 \<lfloor>?C + 1 / 2\<rfloor>"
    using score_of_mean [OF int ne len] by (simp only: Math_round_def)
  show ?thesis
  proof (cases "S = 0")
    case True
    then have "?a = 0" using a by simp
    then show ?thesis using score by (simp add: toDouble_0)
  next
    case False
    then have S1: "1 \<le> S" using S0 by simp
    have nr: "0 < real ?n" using n by simp
    have "real ?n < 2 ^ 32" using len by (metis of_nat_less_iff of_nat_numeral of_nat_power)
    then have "1 / (2 ^ 32 :: real) \<le> 1 / real ?n"
      using nr by (intro divide_left_mono) simp_all
    moreover have "1 / real ?n \<le> ?a"
      unfolding a using S1 nr by (intro divide_right_mono) simp_all
    ultimately have lo: "1 / 2 ^ 32 \<le> ?a" by linarith
    have "real_of_int S \<le> 10 * real ?n"
      using S10 by (metis of_int_le_iff of_int_mult of_int_numeral of_int_of_nat_eq)
    then have hi: "?a \<le> 10" unfolding a using nr by (simp add: field_simps)
    define d where "d = ?C - 10 * ?a"
    have "\<bar>d\<bar> \<le> 410 / 2 ^ 53" unfolding d_def by (rule double_chain_error [OF lo hi])
    then have d: "\<bar>d\<bar> < 1 / of_nat (2 * ?n)" using small_error [OF n len] by linarith
    have "1 \<le> ?n" using ne by (cases fs) simp_all
    then have "1 \<le> real ?n" by (simp only: of_nat_1 [symmetric, where 'a = real] of_nat_le_iff)
    moreover have "1 \<le> r \<Longrightarrow> 1 / (2 * r) \<le> 1" for r :: real
      by (simp add: field_simps)
    ultimately have "1 / real (2 * ?n) \<le> 1"
      by (simp only: of_nat_mult of_nat_numeral)
    then have d1: "\<bar>d\<bar> < 1" using d by linarith
    have Cy: "?C + 1 / 2 = ?y + d" by (simp add: d_def)
    have yN: "?y * of_nat (2 * ?n) = of_int (20 * S + int ?n)"
      unfolding a using nr by (simp add: field_simps)
    show ?thesis
    proof (cases "halfway ?x")
      case False
      then have "?y \<noteq> of_int \<lfloor>?y\<rfloor>" using halfway_iff [of ?x] by blast
      then have "\<lfloor>?y + d\<rfloor> = \<lfloor>?y\<rfloor>"
        using floor_stable [of "2 * ?n" ?y "20 * S + int ?n" d] n yN d by simp
      then have "\<lfloor>?C + 1 / 2\<rfloor> = \<lfloor>?y\<rfloor>" by (simp only: Cy)
      from min_same [OF this score] show ?thesis by blast
    next
      case True
      then have "?y = of_int \<lfloor>?y\<rfloor>" using halfway_iff [of ?x] by blast
      then have "\<lfloor>?y\<rfloor> - 1 \<le> \<lfloor>?y + d\<rfloor> \<and> \<lfloor>?y + d\<rfloor> \<le> \<lfloor>?y\<rfloor>"
        using floor_near [OF d1, of ?y] by blast
      then have "\<lfloor>?y\<rfloor> - 1 \<le> \<lfloor>?C + 1 / 2\<rfloor>" and "\<lfloor>?C + 1 / 2\<rfloor> \<le> \<lfloor>?y\<rfloor>"
        by (simp_all only: Cy)
      from min_near [OF this score] show ?thesis using True by blast
    qed
  qed
qed

lemma toDouble_small_ints:
  "toDouble 1 = 1" "toDouble 5 = 5" "toDouble 6 = 6" "toDouble 10 = 10" "toDouble 12 = 12"
  "toDouble 17 = 17" "toDouble 18 = 18" "toDouble 23 = 23" "toDouble 100 = 100"
  using toDouble_of_int [of 1] toDouble_of_int [of 5] toDouble_of_int [of 6]
    toDouble_of_int [of 10] toDouble_of_int [of 12] toDouble_of_int [of 17]
    toDouble_of_int [of 18] toDouble_of_int [of 23] toDouble_of_int [of 100]
  by simp_all

lemma score_mono:
  assumes "integerSeverities fs" "fs \<noteq> []" "length fs < 2 ^ 32"
    and "integerSeverities gs" "gs \<noteq> []" "length gs < 2 ^ 32"
    and le: "meanSeverity fs \<le> meanSeverity gs"
  shows "calculateRiskScore fs \<le> calculateRiskScore gs"
proof -
  from mean_range [OF assms(1-3)] obtain S where
    "0 \<le> S" and "meanSeverity fs = of_int S / of_nat (length fs)" by blast
  then have "0 \<le> meanSeverity fs" by simp
  from doubleScore_mono [OF this le] show ?thesis
    by (simp only: score_of_mean [OF assms(1-3)] score_of_mean [OF assms(4-6)])
qed

lemma score_single_ten: "calculateRiskScore [f\<lparr>severity := 10\<rparr>] = 100"
  by (simp add: calculateRiskScore_def fadd_def fdiv_def fmul_def toDouble_small_ints
      Math_round_def)

text \<open>The double operations of the run on severities 6, 6, 6, 5, one at a time.\<close>

lemma quarter_23: "fdiv 23 4 = 23 / 4"
  by code_simp

lemma tenth_of_575: "fdiv (23 / 4) 10 = 2589569785738035 / 4503599627370496"
  by code_simp

lemma hundredfold_575:
  "fmul (2589569785738035 / 4503599627370496) 100 = 8092405580431359 / 140737488355328"
  by code_simp

lemma round_575: "Math_round (8092405580431359 / 140737488355328) = 57"
  by code_simp

lemma score_6_6_6_5:
  "calculateRiskScore [exampleFactor 6, exampleFactor 6, exampleFactor 6, exampleFactor 5] = 57"
proof -
  have "foldl (\<lambda>sum factor. fadd sum (severity factor)) 0
          [exampleFactor 6, exampleFactor 6, exampleFactor 6, exampleFactor 5] = 23"
    by (simp add: exampleFactor_def fadd_def toDouble_small_ints)
  then show ?thesis
    by (simp add: calculateRiskScore_def quarter_23 tenth_of_575 hundredfold_575 round_575)
qed

text \<open>The double operations of the run on severities 0, 0, 0, 1.\<close>

lemma tenth_of_quarter:
  "toDouble (toDouble (1 / 4) / 10) = 3602879701896397 / 144115188075855872"
  by code_simp

lemma hundredfold_quarter:
  "3602879701896397 / 144115188075855872 * 100 = (90071992547409925 / 36028797018963968 :: real)"
  "toDouble (90071992547409925 / 36028797018963968) = 5 / 2"
  by simp code_simp

text \<open>
  C2: on a list of risk factors whose severities are whole numbers from 0 to 10 (fewer than
  \<open>2 ^ 32\<close> of them, as in every JavaScript array) the score is \<open>Math.round\<close> of
  \<open>(mean / 10) * 100\<close> as evaluated in binary64 arithmetic, capped at 100.  It is
  \<open>\<lfloor>100 * mean / 10 + 1 / 2\<rfloor>\<close> capped at 100 whenever \<open>100 * mean / 10\<close> is not exactly halfway
  between two integers; when it is halfway, the score is that number or one less.  The score
  is 0 on the empty list and 100 for one factor of severity 10, is monotone in the mean
  severity, and the level is Low up to 33, Medium from 34 to 66 and High from 67 on.
\<close>

theorem C2_risk_score_and_level:
  "calculateRiskScore [] = 0
   \<and> calculateRiskScore [f\<lparr>severity := 10\<rparr>] = 100
   \<and> (integerSeverities fs \<and> fs \<noteq> [] \<and> length fs < 2 ^ 32 \<longrightarrow>
        calculateRiskScore fs
          = min 100 \<lfloor>toDouble (toDouble (toDouble (meanSeverity fs) / 10) * 100) + 1 / 2\<rfloor>
        \<and> (\<not> halfway (100 * meanSeverity fs / 10) \<longrightarrow>
              calculateRiskScore fs = min 100 \<lfloor>100 * meanSeverity fs / 10 + 1 / 2\<rfloor>)
        \<and> min 100 \<lfloor>100 * meanSeverity fs / 10 + 1 / 2\<rfloor> - 1 \<le> calculateRiskScore fs
        \<and> calculateRiskScore fs \<le> min 100 \<lfloor>100 * meanSeverity fs / 10 + 1 / 2\<rfloor>)
   \<and> (integerSeverities fs \<and> fs \<noteq> [] \<and> length fs < 2 ^ 32
        \<and> integerSeverities gs \<and> gs \<noteq> [] \<and> length gs < 2 ^ 32
        \<and> meanSeverity fs \<le> meanSeverity gs
        \<longrightarrow> calculateRiskScore fs \<le> calculateRiskScore gs)
   \<and> (s \<le> 33 \<longrightarrow> classifyRiskLevel s = Low)
   \<and> (34 \<le> s \<and> s \<le> 66 \<longrightarrow> classifyRiskLevel s = Medium)
   \<and> (67 \<le> s \<and> s \<le> 100 \<longrightarrow> classifyRiskLevel s = High)"
proof (intro conjI impI)
  show "calculateRiskScore [] = 0"
    by (simp add: calculateRiskScore_def)
  show "calculateRiskScore [f\<lparr>severity := 10\<rparr>] = 100"
    by (rule score_single_ten)
next
  assume h: "integerSeverities fs \<and> fs \<noteq> [] \<and> length fs < 2 ^ 32"
  then have a: "integerSeverities fs" and b: "fs \<noteq> []" and c: "length fs < 2 ^ 32"
    by blast+
  show "calculateRiskScore fs
          = min 100 \<lfloor>toDouble (toDouble (toDouble (meanSeverity fs) / 10) * 100) + 1 / 2\<rfloor>"
    using score_of_mean [OF a b c] by (simp only: Math_round_def)
  show "min 100 \<lfloor>100 * meanSeverity fs / 10 + 1 / 2\<rfloor> - 1 \<le> calculateRiskScore fs"
    using score_near [OF a b c] by blast
  show "calculateRiskScore fs \<le> min 100 \<lfloor>100 * meanSeverity fs / 10 + 1 / 2\<rfloor>"
    using score_near [OF a b c] by blast
  assume "\<not> halfway (100 * meanSeverity fs / 10)"
  then show "calculateRiskScore fs = min 100 \<lfloor>100 * meanSeverity fs / 10 + 1 / 2\<rfloor>"
    using score_near [OF a b c] by blast
next
  assume "integerSeverities fs \<and> fs \<noteq> [] \<and> length fs < 2 ^ 32
        \<and> integerSeverities gs \<and> gs \<noteq> [] \<and> length gs < 2 ^ 32
        \<and> meanSeverity fs \<le> meanSeverity gs"
  then show "calculateRiskScore fs \<le> calculateRiskScore gs"
    using score_mono [of fs gs] by blast
next
  assume "s \<le> 33"
  then show "classifyRiskLevel s = Low"
    by (simp add: classifyRiskLevel_def LOW_RISK_THRESHOLD_def)
next
  assume "34 \<le> s \<and> s \<le> 66"
  then show "classifyRiskLevel s = Medium"
    by (simp add: classifyRiskLevel_def LOW_RISK_THRESHOLD_def MEDIUM_RISK_THRESHOLD_def)
next
  assume "67 \<le> s \<and> s \<le> 100"
  then show "classifyRiskLevel s = High"
    by (simp add: classifyRiskLevel_def LOW_RISK_THRESHOLD_def MEDIUM_RISK_THRESHOLD_def)
qed

text \<open>
  On the severities 6, 6, 6, 5 the mean is 5.75; \<open>5.75 / 10\<close> rounds to a binary64 value below
  0.575 and the product with 100 to 57.49999999999999, so the score is 57, while
  \<open>round(100 * mean / 10)\<close> is 58.
\<close>

theorem C2_halfway_counterexample:
  "calculateRiskScore [exampleFactor 6, exampleFactor 6, exampleFactor 6, exampleFactor 5] = 57
   \<and> min 100 (Math_round
        (100 * meanSeverity [exampleFactor 6, exampleFactor 6, exampleFactor 6, exampleFactor 5] / 10))
      = 58"
proof
  show "calculateRiskScore [exampleFactor 6, exampleFactor 6, exampleFactor 6, exampleFactor 5]
        = 57"
    by (rule score_6_6_6_5)
  show "min 100 (Math_round
        (100 * meanSeverity [exampleFactor 6, exampleFactor 6, exampleFactor 6, exampleFactor 5] / 10))
      = 58"
    by (simp add: meanSeverity_def exampleFactor_def Math_round_def)
qed

theorem C2_risk_score_and_level_witness:
  "integerSeverities [exampleFactor 6, exampleFactor 6, exampleFactor 5]
   \<and> length [exampleFactor 6, exampleFactor 6, exampleFactor 5] < 2 ^ 32
   \<and> \<not> halfway (100 * meanSeverity [exampleFactor 6, exampleFactor 6, exampleFactor 5] / 10)
   \<and> calculateRiskScore [exampleFactor 6, exampleFactor 6, exampleFactor 5] = 57
   \<and> integerSeverities [exampleFactor 6, exampleFactor 8]
   \<and> meanSeverity [exampleFactor 6, exampleFactor 6, exampleFactor 5]
       \<le> meanSeverity [exampleFactor 6, exampleFactor 8]
   \<and> calculateRiskScore [exampleFactor 6, exampleFactor 6, exampleFactor 5]
       \<le> calculateRiskScore [exampleFactor 6, exampleFactor 8]
   \<and> integerSeverities [exampleFactor 0, exampleFactor 0, exampleFactor 0, exampleFactor 1]
   \<and> halfway (100 * meanSeverity
         [exampleFactor 0, exampleFactor 0, exampleFactor 0, exampleFactor 1] / 10)
   \<and> calculateRiskScore [exampleFactor 0, exampleFactor 0, exampleFactor 0, exampleFactor 1] = 3
   \<and> classifyRiskLevel 33 = Low \<and> classifyRiskLevel 34 = Medium
   \<and> classifyRiskLevel 66 = Medium \<and> classifyRiskLevel 67 = High"
proof -
  let ?A = "[exampleFactor 6, exampleFactor 6, exampleFactor 5]"
  let ?B = "[exampleFactor 6, exampleFactor 8]"
  let ?H = "[exampleFactor 0, exampleFactor 0, exampleFactor 0, exampleFactor 1]"
  have iA: "integerSeverities ?A" and iB: "integerSeverities ?B" and iH: "integerSeverities ?H"
    by code_simp+
  have mA: "meanSeverity ?A = 17 / 3" and mB: "meanSeverity ?B = 7"
    and mH: "meanSeverity ?H = 1 / 4"
    by (simp_all add: meanSeverity_def exampleFactor_def)
  have nh: "\<not> halfway (100 * meanSeverity ?A / 10)" and hh: "halfway (100 * meanSeverity ?H / 10)"
    by (simp_all add: mA mH halfway_def)
  have sA: "calculateRiskScore ?A = 57"
    using C2_risk_score_and_level [where f = "exampleFactor 0" and fs = ?A and gs = ?B and s = 33] iA nh by (simp add: mA)
  have le: "calculateRiskScore ?A \<le> calculateRiskScore ?B"
    using C2_risk_score_and_level [where f = "exampleFactor 0" and fs = ?A and gs = ?B and s = 34] iA iB by (simp add: mA mB)
  have sH: "calculateRiskScore ?H = 3"
    using C2_risk_score_and_level [where f = "exampleFactor 0" and fs = ?H and gs = ?B and s = 66] iH
    by (simp add: mH tenth_of_quarter hundredfold_quarter)
  have lv: "classifyRiskLevel 33 = Low \<and> classifyRiskLevel 34 = Medium
            \<and> classifyRiskLevel 66 = Medium \<and> classifyRiskLevel 67 = High"
    using C2_risk_score_and_level [where f = "exampleFactor 0" and fs = ?A and gs = ?B and s = 67]
      C2_risk_score_and_level [where f = "exampleFactor 0" and fs = ?A and gs = ?B and s = 33]
      C2_risk_score_and_level [where f = "exampleFactor 0" and fs = ?A and gs = ?B and s = 34]
      C2_risk_score_and_level [where f = "exampleFactor 0" and fs = ?A and gs = ?B and s = 66]
    by simp
  show ?thesis
    using iA iB iH nh hh sA le sH lv by (simp add: mA mB)
qed

section \<open>Cycle time\<close>

lemma find_first:
  "P x \<Longrightarrow> \<forall>y\<in>set pre. \<not> P y \<Longrightarrow> find P (pre @ x # rest) = Some x"
  by (induction pre) auto

lemma find_last_rev:
  "P x \<Longrightarrow> \<forall>y\<in>set post. \<not> P y \<Longrightarrow> find P (rev (pre @ x # post)) = Some x"
  using find_first [of P x "rev post" "rev pre"] by simp

lemma find_none: "\<forall>y\<in>set xs. \<not> P y \<Longrightarrow> find P xs = None"
  by (simp add: find_None_iff)

text \<open>
  C9: the cycle time is the hours from the first transition into an active status to the
  last transition into a completed status, and it is 0 when no transition targets an active
  status and when no transition targets a completed status.
\<close>

theorem C9_cycle_time:
  "(ts = pre @ s # rest \<and> isActiveStatus (toStatus s)
      \<and> (\<forall>t\<in>set pre. \<not> isActiveStatus (toStatus t))
      \<and> ts = pre' @ e # post \<and> isCompletedStatus (toStatus e)
      \<and> (\<forall>t\<in>set post. \<not> isCompletedStatus (toStatus t))
     \<longrightarrow> fst (calculateCycleTime ts) = hoursOfMs (timestamp e - timestamp s))
   \<and> ((\<forall>t\<in>set ts. \<not> isActiveStatus (toStatus t)) \<longrightarrow> fst (calculateCycleTime ts) = 0)
   \<and> ((\<forall>t\<in>set ts. \<not> isCompletedStatus (toStatus t)) \<longrightarrow> fst (calculateCycleTime ts) = 0)"
proof (intro conjI impI)
  assume h: "ts = pre @ s # rest \<and> isActiveStatus (toStatus s)
      \<and> (\<forall>t\<in>set pre. \<not> isActiveStatus (toStatus t))
      \<and> ts = pre' @ e # post \<and> isCompletedStatus (toStatus e)
      \<and> (\<forall>t\<in>set post. \<not> isCompletedStatus (toStatus t))"
  have a: "find (\<lambda>t. isActiveStatus (toStatus t)) ts = Some s"
    using h find_first [of "\<lambda>t. isActiveStatus (toStatus t)" s pre rest] by simp
  from h have ts': "ts = pre' @ e # post" by blast
  have "find (\<lambda>t. isCompletedStatus (toStatus t)) (rev (pre' @ e # post)) = Some e"
    using h by (intro find_last_rev) blast+
  then have b: "find (\<lambda>t. isCompletedStatus (toStatus t)) (rev ts) = Some e"
    by (simp only: ts')
  show "fst (calculateCycleTime ts) = hoursOfMs (timestamp e - timestamp s)"
    by (simp add: calculateCycleTime_def Let_def a b)
next
  assume "\<forall>t\<in>set ts. \<not> isActiveStatus (toStatus t)"
  then have "find (\<lambda>t. isActiveStatus (toStatus t)) ts = None"
    by (simp add: find_None_iff)
  then show "fst (calculateCycleTime ts) = 0"
    by (simp add: calculateCycleTime_def Let_def)
next
  assume "\<forall>t\<in>set ts. \<not> isCompletedStatus (toStatus t)"
  then have "find (\<lambda>t. isCompletedStatus (toStatus t)) (rev ts) = None"
    by (simp add: find_None_iff)
  then show "fst (calculateCycleTime ts) = 0"
    by (simp add: calculateCycleTime_def Let_def split: option.splits)
qed

lemma st_eval:
  "isActiveStatus ''In Progress''" "\<not> isCompletedStatus ''In Progress''"
  "isCompletedStatus ''Done''" "\<not> isActiveStatus ''Done''"
  "\<not> isActiveStatus ''To Do''" "\<not> isCompletedStatus ''To Do''"
  by (simp_all add: isActiveStatus_def isCompletedStatus_def ACTIVE_STATUSES_def
      COMPLETED_STATUSES_def toLowerCase_def toLowerChar_def)

text \<open>
  C10: on a transition list with a transition into an active status, the array left to the
  caller is the reversed list, so a second call over the same data runs on the reversed
  order; \<open>calculateAverageCycleTime\<close> leaves every issue's array as \<open>calculateCycleTime\<close>
  left it.
\<close>

theorem C10_reverses_argument:
  "(\<exists>t\<in>set ts. isActiveStatus (toStatus t))
   \<longrightarrow> snd (calculateCycleTime ts) = rev ts
       \<and> calculateCycleTime (snd (calculateCycleTime ts)) = calculateCycleTime (rev ts)
       \<and> map statusTransitions (snd (calculateAverageCycleTime iss))
           = map (\<lambda>issue. snd (calculateCycleTime (statusTransitions issue))) iss"
  by (simp add: calculateCycleTime_def calculateAverageCycleTime_def Let_def zip_map2 o_def
      split_def zip_same_conv_map)

theorem C9_cycle_time_witness:
  "fst (calculateCycleTime bounceTransitions) = 10
   \<and> fst (calculateCycleTime [transitionAt ''To Do'' 0, transitionAt ''Done'' 10]) = 0
   \<and> fst (calculateCycleTime [transitionAt ''In Progress'' 0]) = 0"
  using C9_cycle_time [of bounceTransitions "[]" "transitionAt ''In Progress'' 0"
      "[transitionAt ''Done'' 10, transitionAt ''In Progress'' 20]"
      "[transitionAt ''In Progress'' 0]" "transitionAt ''Done'' 10"
      "[transitionAt ''In Progress'' 20]"]
    C9_cycle_time [of "[transitionAt ''To Do'' 0, transitionAt ''Done'' 10]" "[]" undefined "[]" "[]"
      undefined "[]"]
    C9_cycle_time [of "[transitionAt ''In Progress'' 0]" "[]" undefined "[]" "[]" undefined "[]"]
  by (simp add: bounceTransitions_def transitionAt_def st_eval hoursOfMs_def)

theorem C10_reverses_argument_witness:
  "(\<exists>t\<in>set bounceTransitions. isActiveStatus (toStatus t))
   \<and> snd (calculateCycleTime bounceTransitions) = rev bounceTransitions
   \<and> fst (calculateCycleTime bounceTransitions) = 10
   \<and> fst (calculateCycleTime (snd (calculateCycleTime bounceTransitions))) = - 10"
proof -
  have a: "\<exists>t\<in>set bounceTransitions. isActiveStatus (toStatus t)"
    by (simp add: bounceTransitions_def transitionAt_def st_eval)
  have b: "fst (calculateCycleTime bounceTransitions) = 10"
    by (simp add: calculateCycleTime_def bounceTransitions_def transitionAt_def st_eval
        hoursOfMs_def Let_def)
  have c: "fst (calculateCycleTime (rev bounceTransitions)) = - 10"
    by (simp add: calculateCycleTime_def bounceTransitions_def transitionAt_def st_eval
        hoursOfMs_def Let_def)
  show ?thesis
    using a b c C10_reverses_argument [of bounceTransitions "[]"] by simp
qed

section \<open>Pull-request metrics\<close>

lemma foldl_add_map: "foldl (\<lambda>sum x. sum + g x) (a::real) xs = a + sum_list (map g xs)"
  by (induction xs arbitrary: a) (simp_all add: add.assoc)

lemma mergedLatencies_eq:
  "map calculatePRLatency (filter (\<lambda>pr. prState pr = MERGED \<and> mergedAt pr \<noteq> None) prs)
   = mergedLatencies prs"
  by (induction prs)
     (auto simp: mergedLatencies_def calculatePRLatency_def)

lemma firstReviewTimes_eq:
  "map calculateTimeToFirstReview (filter (\<lambda>pr. firstReviewAt pr \<noteq> None) prs)
   = firstReviewTimes prs"
  by (induction prs)
     (auto simp: firstReviewTimes_def calculateTimeToFirstReview_def)

text \<open>
  C7: the average latency is the mean created-to-merged time over the merged requests, the
  average time to first review the mean over the requests with a first review, the review
  cycles and revisions are means over all requests, each mean being 0 over no request; on
  the empty list all four fields are 0.
\<close>

theorem C7_pr_metrics:
  "averageLatency (calculatePRMetrics prs) = mean (mergedLatencies prs)
   \<and> averageTimeToFirstReview (calculatePRMetrics prs) = mean (firstReviewTimes prs)
   \<and> averageReviewCycles (calculatePRMetrics prs)
       = mean (map (\<lambda>pr. of_nat (length (reviewers pr))) prs)
   \<and> averageRevisions (calculatePRMetrics prs) = mean (map (\<lambda>pr. of_nat (revisionCount pr)) prs)
   \<and> calculatePRMetrics [] = zeroPRMetrics"
proof (cases "prs = []")
  case True
  then show ?thesis
    by (simp add: calculatePRMetrics_def mean_def mergedLatencies_def firstReviewTimes_def
        zeroPRMetrics_def)
next
  case False
  have e: "calculatePRMetrics [] = zeroPRMetrics"
    by (simp add: calculatePRMetrics_def zeroPRMetrics_def)
  have a: "averageLatency (calculatePRMetrics prs) = mean (mergedLatencies prs)"
    using False
    by (simp add: calculatePRMetrics_def Let_def mean_def foldl_add_map
        mergedLatencies_eq [symmetric])
  have b: "averageTimeToFirstReview (calculatePRMetrics prs) = mean (firstReviewTimes prs)"
    using False
    by (simp add: calculatePRMetrics_def Let_def mean_def foldl_add_map
        firstReviewTimes_eq [symmetric])
  have c: "averageReviewCycles (calculatePRMetrics prs)
       = mean (map (\<lambda>pr. of_nat (length (reviewers pr))) prs)"
    using False by (simp add: calculatePRMetrics_def Let_def mean_def foldl_add_map)
  have d: "averageRevisions (calculatePRMetrics prs)
       = mean (map (\<lambda>pr. of_nat (revisionCount pr)) prs)"
    using False by (simp add: calculatePRMetrics_def Let_def mean_def foldl_add_map)
  show ?thesis using a b c d e by simp
qed

theorem C7_pr_metrics_witness:
  "averageLatency (calculatePRMetrics
      [examplePR ''1'' MERGED (Some 2) (Some 8) 3, examplePR ''2'' MERGED (Some 1) (Some 4) 1,
       examplePR ''3'' OPEN None None 2]) = 6
   \<and> averageTimeToFirstReview (calculatePRMetrics
      [examplePR ''1'' MERGED (Some 2) (Some 8) 3, examplePR ''2'' MERGED (Some 1) (Some 4) 1,
       examplePR ''3'' OPEN None None 2]) = 3 / 2
   \<and> averageRevisions (calculatePRMetrics
      [examplePR ''1'' MERGED (Some 2) (Some 8) 3, examplePR ''2'' MERGED (Some 1) (Some 4) 1,
       examplePR ''3'' OPEN None None 2]) = 2"
  using C7_pr_metrics [of "[examplePR ''1'' MERGED (Some 2) (Some 8) 3,
      examplePR ''2'' MERGED (Some 1) (Some 4) 1, examplePR ''3'' OPEN None None 2]"]
  by (simp add: mean_def mergedLatencies_def firstReviewTimes_def examplePR_def hoursOfMs_def)

section \<open>The stable sort\<close>

lemma mset_insertBy: "mset (insertBy cmp x xs) = add_mset x (mset xs)"
  by (induction xs) auto

lemma mset_sortBy: "mset (sortBy cmp xs) = mset xs"
  unfolding sortBy_def by (induction xs) (auto simp: mset_insertBy)

lemma set_sortBy: "set (sortBy cmp xs) = set xs"
  using mset_sortBy [of cmp xs] by (metis set_mset_mset)

lemma length_sortBy: "length (sortBy cmp xs) = length xs"
  using mset_sortBy [of cmp xs] by (metis size_mset)

lemma sorted_insertBy:
  assumes total: "\<And>a b. cmp a b \<le> 0 \<or> cmp b a \<le> 0"
    and trans: "\<And>a b c. cmp a b \<le> 0 \<Longrightarrow> cmp b c \<le> 0 \<Longrightarrow> cmp a c \<le> 0"
  shows "sorted_wrt (\<lambda>a b. cmp a b \<le> 0) xs
         \<Longrightarrow> sorted_wrt (\<lambda>a b. cmp a b \<le> 0) (insertBy cmp x xs)"
proof (induction xs)
  case Nil
  then show ?case by simp
next
  case (Cons y ys)
  show ?case
  proof (cases "cmp x y \<le> 0")
    case True
    then have "\<forall>z\<in>set ys. cmp x z \<le> 0"
      using Cons.prems trans by auto
    with True Cons.prems show ?thesis by simp
  next
    case False
    then have yx: "cmp y x \<le> 0" using total [of x y] by simp
    have "set (insertBy cmp x ys) = insert x (set ys)"
      using mset_insertBy [of cmp x ys] by (metis set_mset_add_mset_insert set_mset_mset)
    with False yx Cons show ?thesis by auto
  qed
qed

lemma sorted_sortBy:
  assumes total: "\<And>a b. cmp a b \<le> 0 \<or> cmp b a \<le> 0"
    and trans: "\<And>a b c. cmp a b \<le> 0 \<Longrightarrow> cmp b c \<le> 0 \<Longrightarrow> cmp a c \<le> 0"
  shows "sorted_wrt (\<lambda>a b. cmp a b \<le> 0) (sortBy cmp xs)"
  unfolding sortBy_def
  by (induction xs) (auto intro: sorted_insertBy [OF total trans])

lemma foldl_cond_append:
  "foldl (\<lambda>acc x. if P x then acc @ [g x] else acc) a xs = a @ map g (filter P xs)"
  by (induction xs arbitrary: a) auto

section \<open>Spillover prediction\<close>

lemma daysRemaining_le_0: "calculateDaysRemaining spr currentDate \<le> 0 \<longleftrightarrow> endDate spr \<le> currentDate"
  by (simp add: calculateDaysRemaining_def Let_def divide_le_0_iff)

lemma predictSpillover_ended:
  "endDate spr \<le> currentDate \<Longrightarrow>
   predictSpillover f now iss spr currentDate sm
   = map sprintEndedPrediction (filter (\<lambda>issue. \<not> isCompletedStatus (status issue)) iss)"
  by (simp add: predictSpillover_def Let_def daysRemaining_le_0 sprintEndedPrediction_def)

lemma predictSpillover_running:
  "currentDate < endDate spr \<Longrightarrow>
   predictSpillover f now iss spr currentDate sm
   = sortBy (\<lambda>a b. probability b - probability a)
       (map (predictionOf f now spr currentDate sm)
          (filter (\<lambda>issue. completionProbabilityOf f now spr currentDate sm issue < 7 / 10)
             (filter (\<lambda>issue. \<not> isCompletedStatus (status issue)) iss)))"
  by (simp add: predictSpillover_def Let_def daysRemaining_le_0 foldl_cond_append
      predictionOf_def [abs_def] completionProbabilityOf_def)

lemma completionProbability_clamped:
  "0 \<le> fst (calculateCompletionProbability f now issue d h sm)
   \<and> fst (calculateCompletionProbability f now issue d h sm) \<le> 1"
proof -
  have "\<exists>x. fst (calculateCompletionProbability f now issue d h sm) = max 0 (min 1 x)"
    unfolding calculateCompletionProbability_def Let_def split_def fst_conv by blast
  then obtain x where "fst (calculateCompletionProbability f now issue d h sm) = max 0 (min 1 x)"
    by blast
  then show ?thesis by simp
qed

lemma probability_sorted:
  "sorted_wrt (\<lambda>a b. probability b - probability a \<le> 0)
     (sortBy (\<lambda>a b. probability b - probability a) ps)"
  by (rule sorted_sortBy) auto

text \<open>
  C5: for a sprint whose end date is at or before the current date, the result is one
  prediction per issue that is not completed, in the order of the issues, with probability 1
  and the fixed reason; and whatever the end date, every prediction is for an issue that is
  not completed.
\<close>

theorem C5_sprint_ended:
  "(endDate spr \<le> currentDate \<longrightarrow>
      predictSpillover f now iss spr currentDate sm
      = map (\<lambda>issue. \<lparr>issueKey = key issue, probability = 1,
                        reasons = [''Sprint has ended and issue is not completed'']\<rparr>)
          (filter (\<lambda>issue. \<not> isCompletedStatus (status issue)) iss))
   \<and> (\<forall>p\<in>set (predictSpillover f now iss spr currentDate sm).
        \<exists>issue\<in>set iss. \<not> isCompletedStatus (status issue) \<and> issueKey p = key issue)"
proof (intro conjI impI ballI)
  assume "endDate spr \<le> currentDate"
  then show "predictSpillover f now iss spr currentDate sm
      = map (\<lambda>issue. \<lparr>issueKey = key issue, probability = 1,
                        reasons = [''Sprint has ended and issue is not completed'']\<rparr>)
          (filter (\<lambda>issue. \<not> isCompletedStatus (status issue)) iss)"
    by (simp add: predictSpillover_ended sprintEndedPrediction_def [abs_def])
next
  fix p
  assume p: "p \<in> set (predictSpillover f now iss spr currentDate sm)"
  show "\<exists>issue\<in>set iss. \<not> isCompletedStatus (status issue) \<and> issueKey p = key issue"
  proof (cases "endDate spr \<le> currentDate")
    case True
    with p show ?thesis
      by (auto simp: predictSpillover_ended sprintEndedPrediction_def)
  next
    case False
    then have "currentDate < endDate spr" by simp
    with p show ?thesis
      by (auto simp: predictSpillover_running set_sortBy predictionOf_def Let_def)
  qed
qed

text \<open>
  C6: for a sprint that has not ended, every completion probability lies in [0, 1]; the
  result holds exactly the predictions of the issues that are not completed and whose
  completion probability is below 0.7, each with spillover probability 1 minus the
  completion probability, hence above 0.3; and it is sorted by spillover probability,
  highest first.
\<close>

theorem C6_running_sprint:
  "currentDate < endDate spr \<longrightarrow>
     (\<forall>issue. 0 \<le> completionProbabilityOf f now spr currentDate sm issue
              \<and> completionProbabilityOf f now spr currentDate sm issue \<le> 1)
     \<and> mset (predictSpillover f now iss spr currentDate sm)
         = mset (map (predictionOf f now spr currentDate sm)
                  (filter (\<lambda>issue. \<not> isCompletedStatus (status issue)
                              \<and> completionProbabilityOf f now spr currentDate sm issue < 7 / 10)
                     iss))
     \<and> (\<forall>issue. probability (predictionOf f now spr currentDate sm issue)
                  = 1 - completionProbabilityOf f now spr currentDate sm issue)
     \<and> (\<forall>p\<in>set (predictSpillover f now iss spr currentDate sm).
          3 / 10 < probability p \<and> probability p \<le> 1)
     \<and> sorted_wrt (\<lambda>a b. probability a \<ge> probability b)
          (predictSpillover f now iss spr currentDate sm)"
proof (intro impI conjI allI ballI)
  fix issue
  show "0 \<le> completionProbabilityOf f now spr currentDate sm issue"
    and "completionProbabilityOf f now spr currentDate sm issue \<le> 1"
    using completionProbability_clamped by (simp_all add: completionProbabilityOf_def)
  show "probability (predictionOf f now spr currentDate sm issue)
          = 1 - completionProbabilityOf f now spr currentDate sm issue"
    by (simp add: predictionOf_def completionProbabilityOf_def Let_def)
next
  assume r: "currentDate < endDate spr"
  show "mset (predictSpillover f now iss spr currentDate sm)
         = mset (map (predictionOf f now spr currentDate sm)
                  (filter (\<lambda>issue. \<not> isCompletedStatus (status issue)
                              \<and> completionProbabilityOf f now spr currentDate sm issue < 7 / 10)
                     iss))"
    using r by (simp add: predictSpillover_running mset_sortBy conj_commute)
  have "sorted_wrt (\<lambda>a b. probability b - probability a \<le> 0)
          (predictSpillover f now iss spr currentDate sm)"
    using r by (simp only: predictSpillover_running probability_sorted)
  then show "sorted_wrt (\<lambda>a b. probability a \<ge> probability b)
          (predictSpillover f now iss spr currentDate sm)"
    by simp
next
  fix p
  assume r: "currentDate < endDate spr"
    and p: "p \<in> set (predictSpillover f now iss spr currentDate sm)"
  then obtain issue where
    i: "p = predictionOf f now spr currentDate sm issue"
       "completionProbabilityOf f now spr currentDate sm issue < 7 / 10"
    by (auto simp: predictSpillover_running set_sortBy)
  have "0 \<le> completionProbabilityOf f now spr currentDate sm issue"
    using completionProbability_clamped by (simp add: completionProbabilityOf_def)
  moreover have "probability p = 1 - completionProbabilityOf f now spr currentDate sm issue"
    using i by (simp add: predictionOf_def completionProbabilityOf_def Let_def)
  ultimately show "3 / 10 < probability p" and "probability p \<le> 1"
    using i by simp_all
qed

lemma st_eval2:
  "isInProgressStatus ''In Progress''" "\<not> isNotStartedStatus ''In Progress''"
  "isNotStartedStatus ''To Do''"
  by (simp_all add: isInProgressStatus_def isNotStartedStatus_def IN_PROGRESS_STATUSES_def
      NOT_STARTED_STATUSES_def toLowerCase_def toLowerChar_def)

theorem C5_sprint_ended_witness:
  "endDate (exampleSprint 0) \<le> 1000
   \<and> predictSpillover plainFmt 1000 spilloverIssues (exampleSprint 0) 1000 None
       = [\<lparr>issueKey = ''ISSUE-1'', probability = 1,
           reasons = [''Sprint has ended and issue is not completed'']\<rparr>,
          \<lparr>issueKey = ''ISSUE-2'', probability = 1,
           reasons = [''Sprint has ended and issue is not completed'']\<rparr>]"
  using C5_sprint_ended [of "exampleSprint 0" 1000 plainFmt 1000 spilloverIssues None]
  by (simp add: exampleSprint_def spilloverIssues_def exampleIssue_def st_eval)

lemma spillover_example:
  "map (\<lambda>p. (issueKey p, probability p))
     (predictSpillover plainFmt 0 spilloverIssues (exampleSprint 172800000) 0 None)
   = [(''ISSUE-2'', 1), (''ISSUE-1'', 3 / 4)]"
  by (simp add: predictSpillover_def calculateDaysRemaining_def exampleSprint_def
      spilloverIssues_def exampleIssue_def st_eval st_eval2 Let_def
      calculateHoursPerStoryPoint_def DEFAULT_HOURS_PER_STORY_POINT_def
      calculateCompletionProbability_def completionFactors_def
      calculateTimeInCurrentStatus_def calculateAverageStatusDwellTime_def truthyString_def
      sortBy_def)

theorem C6_running_sprint_witness:
  "(0::int) < endDate (exampleSprint 172800000)
   \<and> map (\<lambda>p. (issueKey p, probability p))
        (predictSpillover plainFmt 0 spilloverIssues (exampleSprint 172800000) 0 None)
       = [(''ISSUE-2'', 1), (''ISSUE-1'', 3 / 4)]
   \<and> sorted_wrt (\<lambda>a b. probability a \<ge> probability b)
        (predictSpillover plainFmt 0 spilloverIssues (exampleSprint 172800000) 0 None)"
  using C6_running_sprint [of 0 "exampleSprint 172800000" plainFmt 0 None spilloverIssues]
    spillover_example
  by (simp add: exampleSprint_def)

section \<open>Degraded report of the orchestrator\<close>

lemma handleAnalysisError_degraded: "isDegradedReport (handleAnalysisError E e sid)"
  by (simp add: isDegradedReport_def handleAnalysisError_def zeroSprintMetrics_def
      zeroPRMetrics_def)

lemma fetchJiraData_fails:
  "jira_getSprintData E sid = Inl e1 \<or> jira_getSprintIssues E sid = Inl e2
   \<Longrightarrow> \<exists>e. fetchJiraData E sid = Inl e"
  by (auto simp: fetchJiraData_def promiseAll2_def split: sum.splits)

lemma fetchAndCache_fails:
  "fetchJiraData E sid = Inl e \<Longrightarrow> fetchAndCache E sid boardId = Inl e"
  by (simp add: fetchAndCache_def)

lemma collectData_fails:
  assumes "fetchJiraData E sid = Inl e"
    and "forceRefresh \<or> \<not> (\<exists>d prs. storage_getCachedSprintData E sid = Inr (Some d)
                                  \<and> storage_getCachedPRData E sid = Inr (Some prs))"
  shows "\<exists>e'. collectData E sid boardId forceRefresh = Inl e'"
  using assms
  by (auto simp: collectData_def fetchAndCache_fails split: sum.splits option.splits)

text \<open>
  C1: an error that escapes the pipeline does not leave \<open>analyzeSprint\<close>: the result is the
  report built by \<open>handleAnalysisError\<close>, with level High, exactly one recommendation (PROCESS,
  priority 1, retry) and all metrics zero.  That is the case when a Jira request fails
  and the pass reaches the fetch, that is when no cached report is returned
  and the two cached snapshots are not both present.
\<close>

theorem C1_degraded_report:
  "(analyzeSprintBody E sid boardId forceRefresh = Inl e
      \<longrightarrow> analyzeSprint E sid boardId forceRefresh = handleAnalysisError E e sid)
   \<and> isDegradedReport (handleAnalysisError E e sid)
   \<and> ((jira_getSprintData E sid = Inl e1 \<or> jira_getSprintIssues E sid = Inl e2)
        \<and> (forceRefresh \<or> getCachedReport E sid = None)
        \<and> (forceRefresh \<or> \<not> (\<exists>d prs. storage_getCachedSprintData E sid = Inr (Some d)
                                      \<and> storage_getCachedPRData E sid = Inr (Some prs)))
      \<longrightarrow> isDegradedReport (analyzeSprint E sid boardId forceRefresh))"
proof (intro conjI impI)
  assume "analyzeSprintBody E sid boardId forceRefresh = Inl e"
  then show "analyzeSprint E sid boardId forceRefresh = handleAnalysisError E e sid"
    by (simp add: analyzeSprint_def)
next
  show "isDegradedReport (handleAnalysisError E e sid)"
    by (rule handleAnalysisError_degraded)
next
  assume h: "(jira_getSprintData E sid = Inl e1 \<or> jira_getSprintIssues E sid = Inl e2)
        \<and> (forceRefresh \<or> getCachedReport E sid = None)
        \<and> (forceRefresh \<or> \<not> (\<exists>d prs. storage_getCachedSprintData E sid = Inr (Some d)
                                      \<and> storage_getCachedPRData E sid = Inr (Some prs)))"
  then obtain e' where "fetchJiraData E sid = Inl e'"
    using fetchJiraData_fails by blast
  with h obtain e'' where c: "collectData E sid boardId forceRefresh = Inl e''"
    using collectData_fails by blast
  have "(if \<not> forceRefresh then getCachedReport E sid else None) = None"
    using h by auto
  with c have "analyzeSprintBody E sid boardId forceRefresh = Inl e''"
    by (simp add: analyzeSprintBody_def)
  then show "isDegradedReport (analyzeSprint E sid boardId forceRefresh)"
    by (simp add: analyzeSprint_def handleAnalysisError_degraded)
qed

theorem C1_degraded_report_witness:
  "jira_getSprintIssues failingEnv ''42'' = Inl (Error ''Jira API unavailable'')
   \<and> getCachedReport failingEnv ''42'' = None
   \<and> analyzeSprintBody failingEnv ''42'' None False
       = Inl (Error ''Failed to fetch sprint data from Jira: Jira API unavailable'')
   \<and> analyzeSprint failingEnv ''42'' None False
       = handleAnalysisError failingEnv
           (Error ''Failed to fetch sprint data from Jira: Jira API unavailable'') ''42''
   \<and> isDegradedReport (analyzeSprint failingEnv ''42'' None False)
   \<and> reportLevel (riskAssessment (analyzeSprint failingEnv ''42'' None False)) = High"
proof -
  have b: "analyzeSprintBody failingEnv ''42'' None False
       = Inl (Error ''Failed to fetch sprint data from Jira: Jira API unavailable'')"
    by (simp add: analyzeSprintBody_def getCachedReport_def collectData_def fetchAndCache_def
        fetchJiraData_def promiseAll2_def errorMessageOr_def failingEnv_def)
  have c: "getCachedReport failingEnv ''42'' = None"
    by (simp add: getCachedReport_def failingEnv_def)
  have d: "jira_getSprintIssues failingEnv ''42'' = Inl (Error ''Jira API unavailable'')"
    "storage_getCachedSprintData failingEnv ''42'' = Inr None"
    by (simp_all add: failingEnv_def)
  show ?thesis
    using b c d
      C1_degraded_report [of failingEnv "''42''" None False
        "Error ''Failed to fetch sprint data from Jira: Jira API unavailable''" undefined
        "Error ''Jira API unavailable''"]
    by (simp add: isDegradedReport_def)
qed

section \<open>Prioritized recommendations\<close>

lemma compareRecommendations_precedes:
  "compareRecommendations a b \<le> 0 \<longleftrightarrow> precedes a b"
  by (auto simp: compareRecommendations_def precedes_def)

lemma precedes_total: "precedes a b \<or> precedes b a"
  by (auto simp: precedes_def)

lemma precedes_trans: "precedes a b \<Longrightarrow> precedes b c \<Longrightarrow> precedes a c"
  by (auto simp: precedes_def)

lemma sorted_recommendations:
  "sorted_wrt precedes (sortBy compareRecommendations recs)"
proof -
  have "sorted_wrt (\<lambda>a b. compareRecommendations a b \<le> 0) (sortBy compareRecommendations recs)"
  proof (rule sorted_sortBy)
    show "\<And>a b. compareRecommendations a b \<le> 0 \<or> compareRecommendations b a \<le> 0"
      using precedes_total by (simp add: compareRecommendations_precedes)
    show "\<And>a b c. compareRecommendations a b \<le> 0 \<Longrightarrow> compareRecommendations b c \<le> 0
                  \<Longrightarrow> compareRecommendations a c \<le> 0"
      using precedes_trans by (simp add: compareRecommendations_precedes)
  qed
  then show ?thesis by (simp add: compareRecommendations_precedes)
qed

lemma renumber_priorities_from:
  "map priority (map (\<lambda>(index, rec). rec\<lparr>priority := index + 1\<rparr>) (enumerate n xs))
   = [Suc n..<Suc (n + length xs)]"
  by (induction xs arbitrary: n) (simp_all add: upt_conv_Cons del: upt_Suc)

lemma renumber_priorities:
  "map priority (map (\<lambda>(index, rec). rec\<lparr>priority := index + 1\<rparr>) (enumerate 0 xs))
   = [1..<Suc (length xs)]"
  using renumber_priorities_from [of 0 xs] by simp

lemma renumber_contents_from:
  "map (\<lambda>r. r\<lparr>priority := 0\<rparr>)
     (map (\<lambda>(index, rec). rec\<lparr>priority := index + 1\<rparr>) (enumerate n xs))
   = map (\<lambda>r. r\<lparr>priority := 0\<rparr>) xs"
  by (induction xs arbitrary: n) simp_all

lemma renumber_contents:
  "map (\<lambda>r. r\<lparr>priority := 0\<rparr>)
     (map (\<lambda>(index, rec). rec\<lparr>priority := index + 1\<rparr>) (enumerate 0 xs))
   = map (\<lambda>r. r\<lparr>priority := 0\<rparr>) xs"
  by (rule renumber_contents_from)

lemma generateRecommendations_items:
  "generateRecommendations f now ra sm pm iss prs bn
   = prioritizeRecommendations (generatedItems f now ra sm pm iss prs bn)"
  by (simp add: generateRecommendations_def generatedItems_def Let_def)

text \<open>
  C8: the result has at most 7 recommendations; with the priority field set aside it is the
  first 7 of the generated items sorted (stably) by priority ascending and then by impact,
  High before Medium before Low; and its priorities are 1, 2, ..., k.
\<close>

theorem C8_recommendations:
  "length (generateRecommendations f now ra sm pm iss prs bn) \<le> 7
   \<and> length (generateRecommendations f now ra sm pm iss prs bn)
       = min 7 (length (generatedItems f now ra sm pm iss prs bn))
   \<and> mset (sortBy compareRecommendations (generatedItems f now ra sm pm iss prs bn))
       = mset (generatedItems f now ra sm pm iss prs bn)
   \<and> sorted_wrt precedes (sortBy compareRecommendations (generatedItems f now ra sm pm iss prs bn))
   \<and> map (\<lambda>r. r\<lparr>priority := 0\<rparr>) (generateRecommendations f now ra sm pm iss prs bn)
       = map (\<lambda>r. r\<lparr>priority := 0\<rparr>)
           (take 7 (sortBy compareRecommendations (generatedItems f now ra sm pm iss prs bn)))
   \<and> map priority (generateRecommendations f now ra sm pm iss prs bn)
       = [1..<Suc (length (generateRecommendations f now ra sm pm iss prs bn))]"
proof -
  let ?items = "generatedItems f now ra sm pm iss prs bn"
  let ?sorted = "sortBy compareRecommendations ?items"
  let ?out = "generateRecommendations f now ra sm pm iss prs bn"
  have out: "?out = map (\<lambda>(index, rec). rec\<lparr>priority := index + 1\<rparr>) (enumerate 0 (take 7 ?sorted))"
    by (simp add: generateRecommendations_items prioritizeRecommendations_def Let_def)
  have len: "length ?out = min 7 (length ?items)"
    by (simp add: out length_sortBy min.commute)
  have pri: "map priority ?out = [1..<Suc (length ?out)]"
    using renumber_priorities [of "take 7 ?sorted"] by (simp add: out)
  have con: "map (\<lambda>r. r\<lparr>priority := 0\<rparr>) ?out = map (\<lambda>r. r\<lparr>priority := 0\<rparr>) (take 7 ?sorted)"
    using renumber_contents [of "take 7 ?sorted"] by (simp only: out)
  show ?thesis
    using len pri con mset_sortBy [of compareRecommendations ?items]
      sorted_recommendations [of ?items]
    by simp
qed

lemma recs_example:
  "map (\<lambda>r. (priority r, title r, impact r))
     (generateRecommendations plainFmt 0 exampleRisk exampleSprintMetrics examplePRMetrics
        overloadedIssues [] (Some [exampleBottleneck]))
   = [(1, ''Reduce sprint scope to manage high risk'', HighImpact),
      (2, ''Postpone blocked or risky tasks'', HighImpact),
      (3, ''Implement WIP limits to improve flow'', HighImpact),
      (4, ''Address bottleneck in \"In Review\" status'', HighImpact),
      (5, ''Improve review response time'', MediumImpact),
      (6, ''Reduce PR revision cycles'', MediumImpact),
      (7, ''Improve sprint planning and estimation'', MediumImpact)]"
  by code_simp

lemma items_example:
  "length (generatedItems plainFmt 0 exampleRisk exampleSprintMetrics examplePRMetrics
             overloadedIssues [] (Some [exampleBottleneck])) = 8"
  by code_simp

theorem C8_recommendations_witness:
  "length (generatedItems plainFmt 0 exampleRisk exampleSprintMetrics examplePRMetrics
             overloadedIssues [] (Some [exampleBottleneck])) = 8
   \<and> length (generateRecommendations plainFmt 0 exampleRisk exampleSprintMetrics
               examplePRMetrics overloadedIssues [] (Some [exampleBottleneck])) = 7
   \<and> map priority (generateRecommendations plainFmt 0 exampleRisk exampleSprintMetrics
                     examplePRMetrics overloadedIssues [] (Some [exampleBottleneck]))
       = [1, 2, 3, 4, 5, 6, 7]"
proof -
  let ?out = "generateRecommendations plainFmt 0 exampleRisk exampleSprintMetrics
               examplePRMetrics overloadedIssues [] (Some [exampleBottleneck])"
  note c8 = C8_recommendations [of plainFmt 0 exampleRisk exampleSprintMetrics examplePRMetrics
        overloadedIssues "[]" "Some [exampleBottleneck]"]
  have len: "length ?out = 7"
    using c8 items_example by simp
  have pri: "map priority ?out = [1..<Suc (length ?out)]"
    using c8 by blast
  have u: "[1..<Suc 7] = [1, 2, 3, 4, 5, 6, 7::nat]"
    by code_simp
  have "map priority ?out = [1, 2, 3, 4, 5, 6, 7]"
    using pri unfolding len u .
  then show ?thesis
    using len items_example by blast
qed

section \<open>High work in progress\<close>

lemma map_of_mapSet: "map_of (mapSet k v m) = (map_of m)(k \<mapsto> v)"
  by (induction m) (auto simp: fun_eq_iff)

lemma keys_mapSet: "set (map fst (mapSet k v m)) = insert k (set (map fst m))"
  by (induction m) (force split: if_splits)+

lemma distinct_mapSet: "distinct (map fst m) \<Longrightarrow> distinct (map fst (mapSet k v m))"
  by (induction m) (auto simp: keys_mapSet simp del: set_map)

lemma countByAssignee_snoc:
  "countByAssignee (xs @ [x])
   = (case assignee x of
        None \<Rightarrow> countByAssignee xs
      | Some a \<Rightarrow> if a = [] then countByAssignee xs else mapIncrement a (countByAssignee xs))"
  by (simp add: countByAssignee_def split: option.splits)

lemma countByAssignee_counts:
  "distinct (map fst (countByAssignee xs))
   \<and> (\<forall>a. map_of (countByAssignee xs) a
          = (if a \<noteq> [] \<and> 0 < length (filter (\<lambda>i. assignee i = Some a) xs)
             then Some (length (filter (\<lambda>i. assignee i = Some a) xs)) else None))"
proof (induction xs rule: rev_induct)
  case Nil
  then show ?case by (simp add: countByAssignee_def)
next
  case (snoc x xs)
  show ?case
  proof (cases "assignee x")
    case None
    with snoc show ?thesis by (simp add: countByAssignee_snoc)
  next
    case (Some b)
    show ?thesis
    proof (cases "b = []")
      case True
      with Some snoc show ?thesis by (auto simp: countByAssignee_snoc)
    next
      case False
      with Some snoc show ?thesis
        by (auto simp: countByAssignee_snoc mapIncrement_def mapGet_def map_of_mapSet
            distinct_mapSet)
    qed
  qed
qed

lemma wipOf_count:
  "wipOf iss a = length (filter (\<lambda>i. assignee i = Some a) (filter isProgressOrReview iss))"
  by (simp add: wipOf_def conj_commute)

lemma wip_entry:
  "(a, c) \<in> set (countByAssignee (filter isProgressOrReview iss))
   \<longleftrightarrow> a \<noteq> [] \<and> 0 < c \<and> wipOf iss a = c"
proof -
  let ?m = "countByAssignee (filter isProgressOrReview iss)"
  have d: "distinct (map fst ?m)" using countByAssignee_counts by blast
  have "(a, c) \<in> set ?m \<longleftrightarrow> map_of ?m a = Some c"
    using d by simp
  also have "\<dots> \<longleftrightarrow> a \<noteq> [] \<and> 0 < c \<and> wipOf iss a = c"
    using countByAssignee_counts [of "filter isProgressOrReview iss"]
    by (auto simp: wipOf_count)
  finally show ?thesis .
qed

lemma foldl_max_bound:
  "foldl max (a::nat) xs \<in> insert a (set xs) \<and> (\<forall>y\<in>insert a (set xs). y \<le> foldl max a xs)"
proof (induction xs arbitrary: a)
  case Nil
  then show ?case by simp
next
  case (Cons x xs)
  from Cons [of "max a x"] show ?case by (auto simp: max_def split: if_splits)
qed

lemma Math_max_bound:
  "xs \<noteq> [] \<Longrightarrow> Math_max xs \<in> set xs \<and> (\<forall>y\<in>set xs. y \<le> Math_max xs)"
  using foldl_max_bound [of "hd xs" "tl xs"] by (cases xs) auto

lemma overloaded_iff:
  "filter (\<lambda>e. snd e \<ge> HIGH_WIP_THRESHOLD) (countByAssignee (filter isProgressOrReview iss)) \<noteq> []
   \<longleftrightarrow> (\<exists>a. a \<noteq> [] \<and> 5 \<le> wipOf iss a)"
proof -
  have "filter (\<lambda>e. snd e \<ge> HIGH_WIP_THRESHOLD) (countByAssignee (filter isProgressOrReview iss)) \<noteq> []
        \<longleftrightarrow> (\<exists>a c. (a, c) \<in> set (countByAssignee (filter isProgressOrReview iss)) \<and> 5 \<le> c)"
    by (fastforce simp: filter_empty_conv HIGH_WIP_THRESHOLD_def)
  also have "\<dots> \<longleftrightarrow> (\<exists>a. a \<noteq> [] \<and> 5 \<le> wipOf iss a)"
    by (auto simp: wip_entry)
  finally show ?thesis .
qed

lemma overloaded_max:
  assumes "filter (\<lambda>e. snd e \<ge> HIGH_WIP_THRESHOLD) (countByAssignee (filter isProgressOrReview iss)) \<noteq> []"
  shows "(\<exists>a. a \<noteq> [] \<and> wipOf iss a
              = Math_max (map snd (filter (\<lambda>e. snd e \<ge> HIGH_WIP_THRESHOLD)
                                     (countByAssignee (filter isProgressOrReview iss)))))
         \<and> (\<forall>a. a \<noteq> [] \<longrightarrow> wipOf iss a
              \<le> Math_max (map snd (filter (\<lambda>e. snd e \<ge> HIGH_WIP_THRESHOLD)
                                     (countByAssignee (filter isProgressOrReview iss)))))"
proof -
  let ?m = "countByAssignee (filter isProgressOrReview iss)"
  let ?over = "filter (\<lambda>e. snd e \<ge> HIGH_WIP_THRESHOLD) ?m"
  let ?M = "Math_max (map snd ?over)"
  have ne: "map snd ?over \<noteq> []" using assms by simp
  have mem: "?M \<in> set (map snd ?over)" and ub: "\<forall>y\<in>set (map snd ?over). y \<le> ?M"
    using Math_max_bound [OF ne] by blast+
  from mem obtain a where a: "(a, ?M) \<in> set ?m" "5 \<le> ?M"
    by (auto simp: HIGH_WIP_THRESHOLD_def)
  then have ex: "a \<noteq> [] \<and> wipOf iss a = ?M"
    by (simp add: wip_entry)
  have all: "wipOf iss b \<le> ?M" if "b \<noteq> []" for b
  proof (cases "5 \<le> wipOf iss b")
    case True
    with that have "(b, wipOf iss b) \<in> set ?m" by (simp add: wip_entry)
    with True have "(b, wipOf iss b) \<in> set ?over" by (simp add: HIGH_WIP_THRESHOLD_def)
    then have "wipOf iss b \<in> set (map snd ?over)" by force
    with ub show ?thesis by blast
  next
    case False
    with a show ?thesis by simp
  qed
  from ex all show ?thesis by blast
qed

lemma detectHighWIP_issues:
  "detectHighWIP f sm (Some iss)
   = (if filter (\<lambda>e. snd e \<ge> HIGH_WIP_THRESHOLD)
           (countByAssignee (filter isProgressOrReview iss)) \<noteq> []
      then Some \<lparr>category = HIGH_WIP,
                 severity = of_int (min 10 (Math_floor
                   ((of_nat (Math_max (map snd (filter (\<lambda>e. snd e \<ge> HIGH_WIP_THRESHOLD)
                        (countByAssignee (filter isProgressOrReview iss))))) - 5) * 2) + 5)),
                 description =
                   natToString f (length (filter (\<lambda>e. snd e \<ge> HIGH_WIP_THRESHOLD)
                        (countByAssignee (filter isProgressOrReview iss))))
                   @ '' developer(s) have '' @ natToString f HIGH_WIP_THRESHOLD
                   @ ''+ active issues (max: ''
                   @ natToString f (Math_max (map snd (filter (\<lambda>e. snd e \<ge> HIGH_WIP_THRESHOLD)
                        (countByAssignee (filter isProgressOrReview iss)))))
                   @ '').''\<rparr>
      else None)"
  by (simp add: detectHighWIP_def Let_def HIGH_WIP_THRESHOLD_def)

lemma detector_categories:
  "detectPRDelays f pm h = Some fa \<Longrightarrow> category fa = PR_DELAYS"
  "detectHighWIP f sm issOpt = Some fa \<Longrightarrow> category fa = HIGH_WIP"
  "detectCarryOverRisk f sm = Some fa \<Longrightarrow> category fa = CARRYOVER"
  "detectReviewerBottlenecks f prsOpt = Some fa \<Longrightarrow> category fa = BOTTLENECK"
  "detectLowCompletionRate f sm = Some fa \<Longrightarrow> category fa = COMPLEXITY"
  by (auto simp: detectPRDelays_def detectHighWIP_def detectCarryOverRisk_def
      detectReviewerBottlenecks_def detectLowCompletionRate_def Let_def
      split: option.splits if_splits)

lemma one_high_wip:
  "length (filter (\<lambda>x. category x = HIGH_WIP) (identifyRiskFactors f sm pm h issOpt prsOpt)) \<le> 1"
proof -
  have a: "filter (\<lambda>x. category x = HIGH_WIP)
             (pushIfPresent [] (detectPRDelays f pm h)) = []"
    by (auto simp: pushIfPresent_def detector_categories split: option.splits)
  have b: "filter (\<lambda>x. category x = HIGH_WIP)
             (pushIfPresent xs (detectCarryOverRisk f sm)) = filter (\<lambda>x. category x = HIGH_WIP) xs"
    for xs
    by (auto simp: pushIfPresent_def detector_categories split: option.splits)
  have c: "filter (\<lambda>x. category x = HIGH_WIP)
             (pushIfPresent xs (detectReviewerBottlenecks f prsOpt))
           = filter (\<lambda>x. category x = HIGH_WIP) xs" for xs
    by (auto simp: pushIfPresent_def detector_categories split: option.splits)
  have d: "filter (\<lambda>x. category x = HIGH_WIP)
             (pushIfPresent xs (detectLowCompletionRate f sm))
           = filter (\<lambda>x. category x = HIGH_WIP) xs" for xs
    by (auto simp: pushIfPresent_def detector_categories split: option.splits)
  have e: "length (filter (\<lambda>x. category x = HIGH_WIP)
             (pushIfPresent xs (detectHighWIP f sm issOpt)))
           \<le> Suc (length (filter (\<lambda>x. category x = HIGH_WIP) xs))" for xs
    by (auto simp: pushIfPresent_def split: option.splits)
  show ?thesis
    using e [of "pushIfPresent [] (detectPRDelays f pm h)"]
    by (simp add: identifyRiskFactors_def Let_def a b c d)
qed

text \<open>
  C4, as the code has it: with issue data, a HIGH_WIP factor is emitted exactly when some
  (non-empty) assignee has at least 5 issues whose status contains \<open>progress\<close> or \<open>review\<close>
  in any letter case; its severity is \<open>min(10, floor((maxWIP - 5) * 2) + 5)\<close> for the largest
  such count; and a pass holds at most one HIGH_WIP factor.
\<close>

theorem C4_high_wip:
  "(detectHighWIP f sm (Some iss) \<noteq> None \<longleftrightarrow> (\<exists>a. a \<noteq> [] \<and> 5 \<le> wipOf iss a))
   \<and> (\<forall>fa. detectHighWIP f sm (Some iss) = Some fa \<longrightarrow>
          category fa = HIGH_WIP
          \<and> (\<exists>maxWIP. (\<exists>a. a \<noteq> [] \<and> wipOf iss a = maxWIP)
                \<and> (\<forall>a. a \<noteq> [] \<longrightarrow> wipOf iss a \<le> maxWIP)
                \<and> severity fa = of_int (min 10 (Math_floor ((of_nat maxWIP - 5) * 2) + 5))))
   \<and> length (filter (\<lambda>x. category x = HIGH_WIP)
               (identifyRiskFactors f sm pm h issOpt prsOpt)) \<le> 1"
proof (intro conjI allI impI)
  show "detectHighWIP f sm (Some iss) \<noteq> None \<longleftrightarrow> (\<exists>a. a \<noteq> [] \<and> 5 \<le> wipOf iss a)"
    using overloaded_iff [of iss] by (simp add: detectHighWIP_issues)
  show "length (filter (\<lambda>x. category x = HIGH_WIP)
               (identifyRiskFactors f sm pm h issOpt prsOpt)) \<le> 1"
    by (rule one_high_wip)
next
  fix fa
  assume s: "detectHighWIP f sm (Some iss) = Some fa"
  then show "category fa = HIGH_WIP"
    by (rule detector_categories)
  let ?over = "filter (\<lambda>e. snd e \<ge> HIGH_WIP_THRESHOLD)
                 (countByAssignee (filter isProgressOrReview iss))"
  have ne: "?over \<noteq> []"
    using s by (auto simp: detectHighWIP_issues split: if_splits)
  have sev: "severity fa
             = of_int (min 10 (Math_floor ((of_nat (Math_max (map snd ?over)) - 5) * 2) + 5))"
    using s ne by (auto simp: detectHighWIP_issues)
  show "\<exists>maxWIP. (\<exists>a. a \<noteq> [] \<and> wipOf iss a = maxWIP)
                \<and> (\<forall>a. a \<noteq> [] \<longrightarrow> wipOf iss a \<le> maxWIP)
                \<and> severity fa = of_int (min 10 (Math_floor ((of_nat maxWIP - 5) * 2) + 5))"
    using overloaded_max [OF ne] sev by blast
qed

lemma testing_status: "isActiveStatus ''Testing''"
  by (simp add: isActiveStatus_def ACTIVE_STATUSES_def toLowerCase_def toLowerChar_def)

theorem C4_keyword_counterexample:
  "5 \<le> activeWipOf testingIssues ''John''
   \<and> detectHighWIP plainFmt exampleSprintMetrics (Some testingIssues) = None"
  by (simp add: activeWipOf_def testingIssues_def exampleIssue_def testing_status
      detectHighWIP_def isProgressOrReview_def toLowerCase_def toLowerChar_def
      countByAssignee_def Let_def)

lemma overloaded_detected:
  "detectHighWIP plainFmt exampleSprintMetrics (Some overloadedIssues)
   = Some \<lparr>category = HIGH_WIP, severity = 7,
           description = ''# developer(s) have #+ active issues (max: #).''\<rparr>"
  by code_simp

theorem C4_high_wip_witness:
  "detectHighWIP plainFmt exampleSprintMetrics (Some overloadedIssues) \<noteq> None
   \<and> (\<exists>a. a \<noteq> [] \<and> 5 \<le> wipOf overloadedIssues a)
   \<and> (\<exists>maxWIP. (\<forall>a. a \<noteq> [] \<longrightarrow> wipOf overloadedIssues a \<le> maxWIP)
         \<and> (7::real) = of_int (min 10 (Math_floor ((of_nat maxWIP - 5) * 2) + 5)))"
  using C4_high_wip [of plainFmt exampleSprintMetrics overloadedIssues examplePRMetrics None None None]
    overloaded_detected
  by auto

section \<open>Bottlenecks\<close>

text \<open>
  C3 asks for at least 2 distinct affected issues before a status is flagged.  The code
  compares the number of dwell intervals of the status instead: one issue that enters
  \<open>In Review\<close> twice is flagged, with a single affected issue.
\<close>

theorem C3_single_issue_flagged:
  "map (\<lambda>b. (location b, affectedIssues b, bottleneckSeverity b))
     (identifyBottlenecks plainFmt [bouncingIssue])
   = [(''In Review'', [''PROJ-1''], 5)]"
  by code_simp

end
